theory Spec2Isabelle
  imports Complex_Main "HOL-Library.Char_ord" "HOL-Library.List_Lexorder" "HOL-Library.Sublist"
begin

section \<open>Python strings\<close>

text \<open>
  A Python \<open>str\<close> is a sequence of code points. The embedding uses \<^typ>\<open>string\<close>, whose
  characters are the code points 0 to 255 (Latin-1, which covers the Portuguese product
  names): \<open>of_char c\<close> is the code point of \<open>c\<close>. The character classes below are the
  ones Python and its \<open>re\<close> and \<open>unicodedata\<close> modules use on that range.
\<close>

definition py_isspace :: "char \<Rightarrow> bool" where
  \<comment> \<open>\<open>str.isspace\<close>, the \<open>\s\<close> of \<open>re\<close>, the separators of \<open>split()\<close> and \<open>strip()\<close>\<close>
  "py_isspace c =
     (let n = (of_char c :: nat)
      in (9 \<le> n \<and> n \<le> 13) \<or> (28 \<le> n \<and> n \<le> 32) \<or> n = 133 \<or> n = 160)"

definition py_isdecimal :: "char \<Rightarrow> bool" where
  \<comment> \<open>the \<open>\d\<close> of \<open>re\<close>\<close>
  "py_isdecimal c = (let n = (of_char c :: nat) in 48 \<le> n \<and> n \<le> 57)"

definition py_isupper :: "char \<Rightarrow> bool" where
  "py_isupper c =
     (let n = (of_char c :: nat)
      in (65 \<le> n \<and> n \<le> 90) \<or> (192 \<le> n \<and> n \<le> 222 \<and> n \<noteq> 215))"

definition py_lower_char :: "char \<Rightarrow> char" where
  "py_lower_char c = (if py_isupper c then char_of ((of_char c :: nat) + 32) else c)"

definition py_lower :: "string \<Rightarrow> string" where
  "py_lower s = map py_lower_char s"

definition py_strip :: "string \<Rightarrow> string" where
  "py_strip s = rev (dropWhile py_isspace (rev (dropWhile py_isspace s)))"

fun py_split_acc :: "string \<Rightarrow> string \<Rightarrow> string list" where
  "py_split_acc w [] = (if w = [] then [] else [w])"
| "py_split_acc w (c # cs) =
     (if py_isspace c
      then (if w = [] then py_split_acc [] cs else w # py_split_acc [] cs)
      else py_split_acc (w @ [c]) cs)"

definition py_split :: "string \<Rightarrow> string list" where
  \<comment> \<open>\<open>s.split()\<close>: the maximal runs of non-whitespace characters\<close>
  "py_split s = py_split_acc [] s"

fun py_join :: "'a list \<Rightarrow> 'a list list \<Rightarrow> 'a list" where
  "py_join sep [] = []"
| "py_join sep [x] = x"
| "py_join sep (x # y # ys) = x @ sep @ py_join sep (y # ys)"

function py_replace :: "string \<Rightarrow> string \<Rightarrow> string \<Rightarrow> string" where
  "py_replace old new s =
     (if old = [] then concat (map (\<lambda>c. new @ [c]) s) @ new
      else if s = [] then []
      else if prefix old s then new @ py_replace old new (drop (length old) s)
      else hd s # py_replace old new (tl s))"
  by pat_completeness auto
termination
  by (relation "measure (\<lambda>(old, new, s). length s)") auto

declare py_replace.simps [simp del]

fun py_contains :: "'a list \<Rightarrow> 'a list \<Rightarrow> bool" where
  \<comment> \<open>\<open>sub in s\<close>\<close>
  "py_contains sub [] = (sub = [])"
| "py_contains sub (c # cs) = (prefix sub (c # cs) \<or> py_contains sub cs)"

definition strip_accent_char :: "char \<Rightarrow> char" where
  \<comment> \<open>canonical decomposition (NFD) of one code point with the combining marks
      (category \<open>Mn\<close>) dropped: the base letter\<close>
  "strip_accent_char c =
     (let n = (of_char c :: nat) in
      if 192 \<le> n \<and> n \<le> 197 then CHR ''A''
      else if n = 199 then CHR ''C''
      else if 200 \<le> n \<and> n \<le> 203 then CHR ''E''
      else if 204 \<le> n \<and> n \<le> 207 then CHR ''I''
      else if n = 209 then CHR ''N''
      else if 210 \<le> n \<and> n \<le> 214 then CHR ''O''
      else if 217 \<le> n \<and> n \<le> 220 then CHR ''U''
      else if n = 221 then CHR ''Y''
      else if 224 \<le> n \<and> n \<le> 229 then CHR ''a''
      else if n = 231 then CHR ''c''
      else if 232 \<le> n \<and> n \<le> 235 then CHR ''e''
      else if 236 \<le> n \<and> n \<le> 239 then CHR ''i''
      else if n = 241 then CHR ''n''
      else if 242 \<le> n \<and> n \<le> 246 then CHR ''o''
      else if 249 \<le> n \<and> n \<le> 252 then CHR ''u''
      else if n = 253 \<or> n = 255 then CHR ''y''
      else c)"

definition strip_accents :: "string \<Rightarrow> string" where
  "strip_accents s = map strip_accent_char s"

section \<open>Name normalization (classify.py)\<close>

definition replacements :: "(string \<times> string) list" where
  \<comment> \<open>the dict of \<open>normalize_product_name\<close>, in insertion order\<close>
  "replacements =
     [(''pol'', ''mm''), (''polegada'', ''mm''), ([CHR 0x22], ''mm''),
      (''1/2'', ''12.7''), (''1/4'', ''6.35''), (''3/4'', ''19.05''),
      (''3/8'', ''9.525''), (''5/8'', ''15.875''),
      (''sext'', ''sextavado''), (''chav'', ''chave''), (''p/'', ''para'')]"

definition normalize_product_name :: "string \<Rightarrow> string" where
  "normalize_product_name name =
     (let normalized = py_lower name;
          normalized = strip_accents normalized;
          normalized = foldl (\<lambda>s (old, new). py_replace old new s) normalized replacements
      in py_join '' '' (py_split normalized))"

section \<open>Hash keys (classify.py)\<close>

text \<open>
  The names that \<open>generate_hash_keys\<close> receives are the ones the classifying service
  returns, so they are arbitrary Python strings: a \<open>str\<close> is here the list of its code
  points (integers, as \<open>ord\<close> gives them), and \<open>ustr\<close> gives the string of a literal of
  the source. What the code takes
  from Python's library is a parameter: the Unicode tables behind \<open>str.lower\<close>,
  \<open>str.isspace\<close> (also the \<open>\s\<close> of \<open>re\<close> and the separators of \<open>split()\<close> and
  \<open>strip()\<close>), \<open>\d\<close> and \<open>\w\<close>; the MD5 hex digest of the UTF-8 encoding of a string; and
  the two \<open>try\<close> blocks that turn a dimension into a float and format it (\<open>None\<close>: the
  block raised, and \<open>except\<close> keeps the dimension as it is). The encoding itself is not a
  parameter: \<open>str.encode\<close> raises \<open>UnicodeEncodeError\<close> on the strings that have a
  surrogate code point (U+D800 to U+DFFF), and on no other.
\<close>

type_synonym ustring = "int list"

definition cp :: "char \<Rightarrow> int" where
  "cp c = of_char c"

definition ustr :: "string \<Rightarrow> ustring" where
  "ustr s = map cp s"

definition surrogate :: "int \<Rightarrow> bool" where
  "surrogate n = (55296 \<le> n \<and> n \<le> 57343)"

datatype py_error = UnicodeEncodeError

record library =
  str_lower :: "ustring \<Rightarrow> ustring"
  str_isspace :: "int \<Rightarrow> bool"
  re_digit :: "int \<Rightarrow> bool"
  re_word :: "int \<Rightarrow> bool"
  md5_hexdigest :: "ustring \<Rightarrow> ustring"
  fraction_2f :: "ustring \<Rightarrow> ustring option"
  inches_1f :: "ustring \<Rightarrow> ustring option"

definition str_strip :: "library \<Rightarrow> ustring \<Rightarrow> ustring" where
  "str_strip lib s = rev (dropWhile (str_isspace lib) (rev (dropWhile (str_isspace lib) s)))"

fun str_split_acc :: "library \<Rightarrow> ustring \<Rightarrow> ustring \<Rightarrow> ustring list" where
  "str_split_acc lib w [] = (if w = [] then [] else [w])"
| "str_split_acc lib w (c # cs) =
     (if str_isspace lib c
      then (if w = [] then str_split_acc lib [] cs else w # str_split_acc lib [] cs)
      else str_split_acc lib (w @ [c]) cs)"

definition str_split :: "library \<Rightarrow> ustring \<Rightarrow> ustring list" where
  \<comment> \<open>\<open>s.split()\<close>: the maximal runs of non-whitespace characters\<close>
  "str_split lib s = str_split_acc lib [] s"

text \<open>
  The regular expressions of \<open>generate_hash_keys\<close> are fixed, so each is embedded as the
  matcher it denotes: a function from the preceding character and the rest of the text to
  the captured groups and the length of the match at that position, if there is one.
  \<open>re_findall\<close> scans as \<open>re.findall\<close> does: leftmost match first, then on from its end.
  In Python's tables no digit is a space, and none of the characters that the patterns
  name is a digit or a space; so in these patterns a greedy repetition that is followed by
  a character outside its class can only match its longest run, and no backtracking is
  left out.
\<close>

definition word_boundary :: "library \<Rightarrow> int option \<Rightarrow> int option \<Rightarrow> bool" where
  \<comment> \<open>\<open>\b\<close> between two characters (\<open>None\<close>: the start or the end of the text)\<close>
  "word_boundary lib prev nxt =
     ((case prev of Some c \<Rightarrow> re_word lib c | None \<Rightarrow> False) \<noteq>
      (case nxt of Some c \<Rightarrow> re_word lib c | None \<Rightarrow> False))"

fun re_findall ::
  "(int option \<Rightarrow> ustring \<Rightarrow> ('a \<times> nat) option) \<Rightarrow> int option \<Rightarrow> ustring \<Rightarrow> 'a list" where
  "re_findall m prev [] = []"
| "re_findall m prev (c # cs) =
     (case m prev (c # cs) of
        Some (v, n) \<Rightarrow> v # re_findall m (Some (last (c # take (n - 1) cs))) (drop (n - 1) cs)
      | None \<Rightarrow> re_findall m (Some c) cs)"

definition match_alternatives ::
  "library \<Rightarrow> ustring list \<Rightarrow> int option \<Rightarrow> ustring \<Rightarrow> (ustring \<times> nat) option" where
  \<comment> \<open>\<open>\b(a1|a2|...)\b\<close>: the first alternative, in order, that matches between word boundaries\<close>
  "match_alternatives lib alts prev s =
     (case List.find
             (\<lambda>a. a \<noteq> [] \<and> prefix a s \<and> word_boundary lib prev (Some (hd a)) \<and>
                  word_boundary lib (Some (last a))
                    (case drop (length a) s of [] \<Rightarrow> None | c # rest \<Rightarrow> Some c))
             alts of
        None \<Rightarrow> None
      | Some a \<Rightarrow> Some (a, length a))"

definition core_patterns :: "ustring list list" where
  "core_patterns =
     map (map ustr)
       [[''parafuso'', ''porca'', ''arruela'', ''chave'', ''ferramenta'', ''oleo'', ''graxa'',
         ''filtro'', ''valvula'', ''bomba'', ''motor''],
        [''sextavado'', ''allen'', ''phillips'', ''fenda'', ''torx''],
        [''aco'', ''inox'', ''ferro'', ''aluminio'', ''plastico'', ''borracha''],
        [''mm'', ''cm'', ''m'', ''pol'', ''polegada'', ''litro'', ''kg'', ''g'']]"

definition extract_core_terms :: "library \<Rightarrow> ustring \<Rightarrow> ustring list" where
  \<comment> \<open>\<open>list(set(core_terms))\<close>: the order of a Python set is not fixed; the caller sorts\<close>
  "extract_core_terms lib text =
     (let text_lower = str_lower lib text
      in remdups (concat (map (\<lambda>alts. re_findall (match_alternatives lib alts) None text_lower)
                            core_patterns)))"

definition number_prefix :: "library \<Rightarrow> ustring \<Rightarrow> ustring" where
  \<comment> \<open>the match of \<open>\d+(?:[.,]\d+)?\<close> at the start of the text; empty when there is none\<close>
  "number_prefix lib s =
     (let ds = takeWhile (re_digit lib) s; r = dropWhile (re_digit lib) s
      in if ds = [] then []
         else (case r of
                 [] \<Rightarrow> ds
               | c # r' \<Rightarrow>
                   if (c = cp CHR ''.'' \<or> c = cp CHR '','') \<and> takeWhile (re_digit lib) r' \<noteq> []
                   then ds @ c # takeWhile (re_digit lib) r'
                   else ds))"

definition unit_prefix :: "ustring \<Rightarrow> ustring" where
  \<comment> \<open>the match of \<open>(mm|cm|m|pol|")\<close> at the start of the text; empty when there is none\<close>
  "unit_prefix s =
     (case List.find (\<lambda>u. prefix u s) (map ustr [''mm'', ''cm'', ''m'', ''pol'', [CHR 0x22]]) of
        Some u \<Rightarrow> u | None \<Rightarrow> [])"

definition match_number_unit ::
  "library \<Rightarrow> int option \<Rightarrow> ustring \<Rightarrow> ((ustring \<times> ustring) \<times> nat) option" where
  \<comment> \<open>\<open>(\d+(?:[.,]\d+)?)\s*(mm|cm|m|pol|")\<close>\<close>
  "match_number_unit lib prev s =
     (let num = number_prefix lib s;
          r = dropWhile (str_isspace lib) (drop (length num) s);
          u = unit_prefix r
      in if num = [] \<or> u = [] then None
         else Some ((num, u), length s - length r + length u))"

definition match_number_x_number ::
  "library \<Rightarrow> int option \<Rightarrow> ustring \<Rightarrow> ((ustring \<times> ustring) \<times> nat) option" where
  \<comment> \<open>\<open>(\d+(?:[.,]\d+)?)\s*x\s*(\d+(?:[.,]\d+)?)\<close>\<close>
  "match_number_x_number lib prev s =
     (let a = number_prefix lib s;
          r1 = dropWhile (str_isspace lib) (drop (length a) s)
      in if a = [] then None
         else (case r1 of
                 [] \<Rightarrow> None
               | c # r2 \<Rightarrow>
                   if c = cp CHR ''x''
                   then (let r3 = dropWhile (str_isspace lib) r2; b = number_prefix lib r3
                         in if b = [] then None
                            else Some ((a, b), length s - length r3 + length b))
                   else None))"

definition match_metric :: "library \<Rightarrow> int option \<Rightarrow> ustring \<Rightarrow> (ustring \<times> nat) option" where
  \<comment> \<open>\<open>M(\d+)\<close>, with a capital M\<close>
  "match_metric lib prev s =
     (case s of
        [] \<Rightarrow> None
      | c # r \<Rightarrow>
          if c = cp CHR ''M'' \<and> takeWhile (re_digit lib) r \<noteq> []
          then Some (takeWhile (re_digit lib) r, 1 + length (takeWhile (re_digit lib) r))
          else None)"

definition match_fraction :: "library \<Rightarrow> int option \<Rightarrow> ustring \<Rightarrow> (ustring \<times> nat) option" where
  \<comment> \<open>\<open>(\d+/\d+)\<close>\<close>
  "match_fraction lib prev s =
     (let d1 = takeWhile (re_digit lib) s; r = dropWhile (re_digit lib) s
      in if d1 = [] then None
         else (case r of
                 [] \<Rightarrow> None
               | c # r' \<Rightarrow>
                   if c = cp CHR ''/'' \<and> takeWhile (re_digit lib) r' \<noteq> []
                   then Some (d1 @ c # takeWhile (re_digit lib) r',
                              length d1 + 1 + length (takeWhile (re_digit lib) r'))
                   else None))"

definition normalize_dim :: "library \<Rightarrow> ustring \<Rightarrow> ustring" where
  "normalize_dim lib dm =
     (if cp CHR ''/'' \<in> set dm
      then (case fraction_2f lib dm of Some s \<Rightarrow> s | None \<Rightarrow> dm)
      else if py_contains (ustr ''pol'') dm \<or> cp CHR 0x22 \<in> set dm
      then (case inches_1f lib dm of Some s \<Rightarrow> s | None \<Rightarrow> dm)
      else dm)"

definition found_dimensions :: "library \<Rightarrow> ustring \<Rightarrow> ustring list" where
  \<comment> \<open>the first loop of \<open>_extract_dimensions\<close>: of a pattern with two groups only the first
      match counts, and its non-empty groups\<close>
  "found_dimensions lib text =
     (let t = str_lower lib text
      in (case re_findall (match_number_unit lib) None t of
            [] \<Rightarrow> [] | (a, b) # rest \<Rightarrow> filter (\<lambda>m. m \<noteq> []) [a, b]) @
         (case re_findall (match_number_x_number lib) None t of
            [] \<Rightarrow> [] | (a, b) # rest \<Rightarrow> filter (\<lambda>m. m \<noteq> []) [a, b]) @
         re_findall (match_metric lib) None t @
         re_findall (match_fraction lib) None t)"

definition extract_dimensions :: "library \<Rightarrow> ustring \<Rightarrow> ustring list" where
  "extract_dimensions lib text = map (normalize_dim lib) (found_dimensions lib text)"

definition alpha_only :: "ustring \<Rightarrow> ustring" where
  \<comment> \<open>\<open>re.sub(r'[^a-z0-9]', '', s)\<close>\<close>
  "alpha_only s = filter (\<lambda>n. (97 \<le> n \<and> n \<le> 122) \<or> (48 \<le> n \<and> n \<le> 57)) s"

definition generate_hash_keys ::
  "library \<Rightarrow> ustring \<Rightarrow> ustring \<Rightarrow> py_error + (string \<times> ustring) list" where
  \<comment> \<open>the dict \<open>keys\<close>, in insertion order; \<open>normalized_name.encode()\<close> is evaluated, and may
      raise, only when no dimension was found\<close>
  "generate_hash_keys lib normalized_name original_name =
     (let words = str_split lib (str_lower lib normalized_name);
          core_terms = extract_core_terms lib normalized_name;
          dimensions = extract_dimensions lib normalized_name;
          significant_words = take 4 (filter (\<lambda>w. length w > 2) words);
          phon_key = concat (map (take 3) significant_words)
      in if dimensions = [] \<and> list_ex surrogate normalized_name then Inl UnicodeEncodeError
         else Inr [(''exact'', str_strip lib (str_lower lib normalized_name)),
                   (''alpha'', alpha_only (str_lower lib normalized_name)),
                   (''sorted'', py_join (ustr ''_'') (sort words)),
                   (''core'', py_join (ustr ''_'') (sort core_terms)),
                   (''dim'', if dimensions \<noteq> [] then py_join (ustr ''_'') dimensions
                             else take 10 (md5_hexdigest lib normalized_name)),
                   (''phon'', if phon_key \<noteq> [] then phon_key
                              else str_lower lib (take 10 normalized_name))])"

section \<open>Stored values (PostgreSQL)\<close>

text \<open>
  What the store takes of the values that the program sends. The driver refuses a text with
  a NUL character (\<open>ValueError\<close>). The server refuses an integer outside the 32-bit range for
  a column \<open>INTEGER\<close>, and a text longer than \<open>n\<close> characters for a column \<open>VARCHAR(n)\<close>
  unless the excess is spaces only, which it cuts off (\<open>DataError\<close>). It refuses a row that
  refers to a product that is not in \<open>products_enhanced\<close> (\<open>IntegrityError\<close>).
\<close>

datatype db_error = ValueError | DataError | IntegrityError

definition int4 :: "int \<Rightarrow> bool" where
  \<comment> \<open>the values of a column of type \<open>INTEGER\<close>\<close>
  "int4 n = (- 2147483648 \<le> n \<and> n \<le> 2147483647)"

definition int8 :: "int \<Rightarrow> bool" where
  \<comment> \<open>the values of type \<open>bigint\<close>\<close>
  "int8 n = (- 9223372036854775808 \<le> n \<and> n \<le> 9223372036854775807)"

definition pg_text :: "string \<Rightarrow> bool" where
  \<comment> \<open>the texts that the driver sends\<close>
  "pg_text s = (CHR 0x00 \<notin> set s)"

definition varchar :: "nat \<Rightarrow> string \<Rightarrow> string option" where
  \<comment> \<open>what a column of type \<open>VARCHAR(n)\<close> stores for a text, \<open>None\<close> for a refused one\<close>
  "varchar n s =
     (if length s \<le> n then Some s
      else if list_all (\<lambda>c. c = CHR '' '') (drop n s) then Some (take n s)
      else None)"

section \<open>Duplicate dictionary (database.py)\<close>

text \<open>
  The state of \<open>DatabaseManager\<close> is what its connection sees: the table
  \<open>products_enhanced\<close>, the table \<open>duplicate_dictionary\<close> as a map from its primary key
  \<open>hash_key\<close> to the rest of the row, and the key log. The columns no statement of the
  modelled functions reads or writes (\<open>normalized_form\<close>, the timestamps, the classification
  columns of a product) are left out. Weights and scores are real numbers; the code compares
  the same float literals that the configuration holds. Hit counts are integers without a
  bound. The inserts of \<open>register_product_keys\<close> are refused as the schema says: the
  columns \<open>hash_key VARCHAR(255)\<close>, \<open>key_type VARCHAR(20)\<close>, the \<open>INTEGER\<close> columns, and
  the references to \<open>products_enhanced(id)\<close> of \<open>duplicate_dictionary.master_product_id\<close>
  and \<open>hash_key_log.product_id\<close>.
\<close>

record dictionary_row =
  duplicate_group_id :: int
  key_type :: string
  confidence_weight :: real
  master_product_id :: "int option"
  hit_count :: int

record product_row =
  p_id :: int
  p_original_name :: string
  p_normalized_name :: string
  p_duplicate_group_id :: "int option"
  p_is_master :: bool
  p_similarity_score :: real

record database =
  products_enhanced :: "product_row list"
  duplicate_dictionary :: "string \<rightharpoonup> dictionary_row"
  hash_key_log :: "(int \<times> (string \<times> string) list) list"

definition key_weights :: "(string \<times> real) list" where
  \<comment> \<open>\<open>DUPLICATE_DETECTION_CONFIG["key_weights"]\<close>\<close>
  "key_weights =
     [(''exact'', 1.0), (''alpha'', 0.95), (''sorted'', 0.90),
      (''core'', 0.85), (''dim'', 0.85), (''phon'', 0.75)]"

definition weight_of :: "(string \<times> real) list \<Rightarrow> string \<Rightarrow> real" where
  \<comment> \<open>\<open>key_weights.get(key_type, 0.5)\<close>\<close>
  "weight_of weights kt = (case map_of weights kt of Some w \<Rightarrow> w | None \<Rightarrow> 0.5)"

definition select_binding ::
  "(string \<rightharpoonup> dictionary_row) \<Rightarrow> string \<Rightarrow> string \<Rightarrow> dictionary_row option" where
  \<comment> \<open>\<open>SELECT ... FROM duplicate_dictionary WHERE hash_key = %s AND key_type = %s\<close>\<close>
  "select_binding d hk kt =
     (case d hk of None \<Rightarrow> None
      | Some r \<Rightarrow> if key_type r = kt then Some r else None)"

definition bump_hit_count ::
  "(string \<rightharpoonup> dictionary_row) \<Rightarrow> string \<Rightarrow> (string \<rightharpoonup> dictionary_row)" where
  \<comment> \<open>\<open>UPDATE duplicate_dictionary SET hit_count = hit_count + 1 WHERE hash_key = %s\<close>\<close>
  "bump_hit_count d hk =
     (case d hk of None \<Rightarrow> d
      | Some r \<Rightarrow> d(hk \<mapsto> r\<lparr>hit_count := hit_count r + 1\<rparr>))"

fun check_step ::
  "(string \<times> real) list \<Rightarrow> int option \<times> real \<times> (string \<rightharpoonup> dictionary_row) \<Rightarrow>
   string \<times> string \<Rightarrow> int option \<times> real \<times> (string \<rightharpoonup> dictionary_row)" where
  \<comment> \<open>the body of \<open>for key_type, hash_key in hash_keys.items()\<close>\<close>
  "check_step weights (best_match, best_score, d) (kt, hk) =
     (case select_binding d hk kt of
        None \<Rightarrow> (best_match, best_score, d)
      | Some result \<Rightarrow>
          (let score = weight_of weights kt;
               d' = bump_hit_count d hk
           in if score > best_score then (Some (duplicate_group_id result), score, d')
              else (best_match, best_score, d')))"

definition check_duplicate_by_keys ::
  "database \<Rightarrow> (string \<times> string) list \<Rightarrow> (string \<times> real) list \<Rightarrow>
   (int \<times> real) option \<times> database" where
  \<comment> \<open>\<open>if best_match and best_score >= 0.85\<close>: a group 0 is falsy in Python\<close>
  "check_duplicate_by_keys db hash_keys weights =
     (case foldl (check_step weights) (None, 0, duplicate_dictionary db) hash_keys of
        (best_match, best_score, d) \<Rightarrow>
          (case best_match of
             Some g \<Rightarrow> if g \<noteq> 0 \<and> best_score \<ge> 0.85 then Some (g, best_score) else None
           | None \<Rightarrow> None,
           db\<lparr>duplicate_dictionary := d\<rparr>))"

definition register_key ::
  "int list \<Rightarrow> int \<Rightarrow> int \<Rightarrow> (string \<times> real) list \<Rightarrow> (string \<rightharpoonup> dictionary_row) \<Rightarrow>
   string \<times> string \<Rightarrow> db_error + (string \<rightharpoonup> dictionary_row)" where
  \<comment> \<open>\<open>INSERT INTO duplicate_dictionary ... ON CONFLICT (hash_key) DO UPDATE
      SET hit_count = duplicate_dictionary.hit_count + 1\<close>; \<open>ids\<close> are the values of
      \<open>products_enhanced.id\<close>; a new row starts with the default \<open>hit_count = 0\<close>, and only
      a new row is checked against \<open>ids\<close>\<close>
  "register_key ids product_id group_id weights d k =
     (case k of (kt, hk) \<Rightarrow>
        if \<not> (pg_text hk \<and> pg_text kt) then Inl ValueError
        else if \<not> (int4 group_id \<and> int4 product_id) then Inl DataError
        else (case (varchar 255 hk, varchar 20 kt) of
                (Some hash_key, Some key_type') \<Rightarrow>
                  (case d hash_key of
                     None \<Rightarrow>
                       if product_id \<in> set ids
                       then Inr (d(hash_key \<mapsto>
                                   \<lparr>duplicate_group_id = group_id, key_type = key_type',
                                    confidence_weight = weight_of weights kt,
                                    master_product_id = Some product_id, hit_count = 0\<rparr>))
                       else Inl IntegrityError
                   | Some r \<Rightarrow> Inr (d(hash_key \<mapsto> r\<lparr>hit_count := hit_count r + 1\<rparr>)))
              | _ \<Rightarrow> Inl DataError))"

fun register_loop ::
  "int list \<Rightarrow> int \<Rightarrow> int \<Rightarrow> (string \<times> real) list \<Rightarrow> (string \<rightharpoonup> dictionary_row) \<Rightarrow>
   (string \<times> string) list \<Rightarrow> db_error + (string \<rightharpoonup> dictionary_row)" where
  \<comment> \<open>\<open>for key_type, hash_key in hash_keys.items()\<close>: the first refused insert ends the
      loop\<close>
  "register_loop ids product_id group_id weights d [] = Inr d"
| "register_loop ids product_id group_id weights d (k # ks) =
     (case register_key ids product_id group_id weights d k of
        Inl e \<Rightarrow> Inl e
      | Inr d' \<Rightarrow> register_loop ids product_id group_id weights d' ks)"

text \<open>
  \<open>register_product_keys\<close> has no handler: a refused statement raises out of the method
  before its \<open>commit\<close>, so nothing of the call is stored, and the result is the error. After
  the loop the method inserts the product and its keys into \<open>hash_key_log\<close>; this row
  refers to the product too.
\<close>

definition register_product_keys ::
  "database \<Rightarrow> int \<Rightarrow> (string \<times> string) list \<Rightarrow> int \<Rightarrow> (string \<times> real) list \<Rightarrow>
   db_error + database" where
  "register_product_keys db product_id hash_keys group_id weights =
     (case register_loop (map p_id (products_enhanced db)) product_id group_id weights
             (duplicate_dictionary db) hash_keys of
        Inl e \<Rightarrow> Inl e
      | Inr d \<Rightarrow>
          if \<not> int4 product_id then Inl DataError
          else if product_id \<notin> set (map p_id (products_enhanced db)) then Inl IntegrityError
          else Inr (db\<lparr>duplicate_dictionary := d,
                       hash_key_log := hash_key_log db @ [(product_id, hash_keys)]\<rparr>))"

definition sql_max :: "int option list \<Rightarrow> int option" where
  \<comment> \<open>\<open>MAX\<close> over a nullable column: \<open>NULL\<close> when no row has a value\<close>
  "sql_max xs =
     (case List.map_filter id xs of [] \<Rightarrow> None | v # vs \<Rightarrow> Some (fold max vs v))"

definition get_next_group_id :: "database \<Rightarrow> int" where
  \<comment> \<open>\<open>SELECT COALESCE(MAX(duplicate_group_id), 0) + 1 FROM products_enhanced\<close>\<close>
  "get_next_group_id db =
     (case sql_max (map p_duplicate_group_id (products_enhanced db)) of
        None \<Rightarrow> 0 | Some m \<Rightarrow> m) + 1"

text \<open>
  A classified product is the dict that \<open>classify_batch\<close> returns for it; the three fields of
  duplicate detection are absent (\<open>None\<close>) until \<open>detect_duplicates\<close> sets them.
\<close>

record classified_product =
  original_name :: string
  normalized_name :: string
  hash_keys :: "(string \<times> string) list"
  c_duplicate_group_id :: "int option"
  similarity_score :: "real option"
  is_master :: "bool option"

fun detect_duplicates ::
  "database \<Rightarrow> (string \<times> real) list \<Rightarrow> classified_product list \<Rightarrow>
   classified_product list \<times> database" where
  "detect_duplicates db weights [] = ([], db)"
| "detect_duplicates db weights (product # rest) =
     (case check_duplicate_by_keys db (hash_keys product) weights of
        (duplicate_result, db1) \<Rightarrow>
          (let product' =
                 (case duplicate_result of
                    Some (group_id, similarity) \<Rightarrow>
                      product\<lparr>c_duplicate_group_id := Some group_id,
                              similarity_score := Some similarity,
                              is_master := Some False\<rparr>
                  | None \<Rightarrow>
                      product\<lparr>c_duplicate_group_id := Some (get_next_group_id db1),
                              similarity_score := Some 1.0,
                              is_master := Some True\<rparr>)
           in (case detect_duplicates db1 weights rest of
                 (rest', db2) \<Rightarrow> (product' # rest', db2))))"

section \<open>The classifier (mro_classifier.py)\<close>

text \<open>
  The external service is an oracle: \<open>api n\<close> is the outcome of the \<open>n\<close>-th call of
  \<open>client.messages.create\<close> made in a run (a reply text, a rate-limit error, or any other
  exception with its message). The theorems hold for every oracle, so nothing is assumed of
  how the service reads a prompt. The world records the number of calls made and the
  back-off delays slept, in seconds.
\<close>

datatype api_outcome = Reply string | RateLimitError | ApiError string

record world =
  calls :: nat
  slept :: "nat list"

definition departments :: "(string \<times> string) list" where
  "departments =
     [(''D03'', ''MRO: MATERIAL, REPARO E OPERA'' @ [CHR 0xC7, CHR 0xC3] @ ''O'')]"

definition categories_by_dept :: "(string \<times> (string \<times> string) list) list" where
  "categories_by_dept =
     [(''D03'',
        [(''S09'', ''BARRAS E CHAPAS''),
         (''S17'', ''BATERIAS''),
         (''S25'', ''BOMBAS E MOTORES''),
         (''S36'', ''CORRENTES MET'' @ [CHR 0xC1] @ ''LICAS E ENGRENAGENS''),
         (''S39'', ''ELEMENTOS DE FIXA'' @ [CHR 0xC7, CHR 0xC3] @ ''O E VEDA'' @ [CHR 0xC7, CHR 0xC3] @ ''O''),
         (''S41'', ''FERRAMENTAS''),
         (''S43'', ''MATERIAIS DIVERSOS''),
         (''S46'', ''MATERIAIS HIDR'' @ [CHR 0xC1] @ ''ULICOS, PNEUM'' @ [CHR 0xC1] @ ''TICOS, FILTROS E V'' @ [CHR 0xC1] @ ''LVULAS''),
         (''S47'', ''MATERIAIS EL'' @ [CHR 0xC9] @ ''TRICOS E ELETR'' @ [CHR 0xD4] @ ''NICOS''),
         (''S49'', ''LUBRIFICANTES''),
         (''S51'', ''PARTES MEC'' @ [CHR 0xC2] @ ''NICAS, ROLAMENTOS E CORREIAS''),
         (''S54'', ''TUBOS E CONEX'' @ [CHR 0xD5] @ ''ES''),
         (''S71'', ''AUTOMA'' @ [CHR 0xC7, CHR 0xC3] @ ''O INDUSTRIAL''),
         (''S72'', ''EMBALAGENS''),
         (''S73'', ''ILUMINA'' @ [CHR 0xC7, CHR 0xC3] @ ''O''),
         (''S74'', ''QU'' @ [CHR 0xCD] @ ''MICOS INDUSTRIAIS'')])]"

definition subcategories_by_cat :: "(string \<times> (string \<times> string) list) list" where
  "subcategories_by_cat =
     [(''S09'',
        [(''C037'', ''Barras de a'' @ [CHR 0xE7] @ ''o''),
         (''C060'', ''Chapas''),
         (''C114'', ''Ferros Chatos''),
         (''C190'', ''Formas''),
         (''C201'', ''Hastes''),
         (''C229'', ''Tarugos'')]),
      (''S17'',
        [(''C001'', ''Baterias l'' @ [CHR 0xED] @ ''tio''),
         (''C056'', ''Baterias n'' @ [CHR 0xED] @ ''quel''),
         (''C110'', ''Baterias tracion'' @ [CHR 0xE1] @ ''rias''),
         (''C187'', ''Outras baterias'')]),
      (''S25'',
        [(''C002'', ''Bombas''),
         (''C057'', ''Chaves e compressores''),
         (''C111'', ''H'' @ [CHR 0xE9] @ ''lices''),
         (''C188'', ''Juntas para bomba''),
         (''C199'', ''Motobombas''),
         (''C228'', ''Motores''),
         (''C274'', ''Motovibradores''),
         (''C293'', ''Outros componentes bombas e motores''),
         (''C311'', ''Rotores''),
         (''C326'', ''Servomotores'')]),
      (''S36'',
        [(''C042'', ''Correntes''),
         (''C095'', ''Emendas''),
         (''C145'', ''Engrenagens''),
         (''C175'', ''Manilhas''),
         (''C221'', ''Olhal''),
         (''C247'', ''Outras correntes e engrenagens''),
         (''C268'', ''Engates'')]),
      (''S39'',
        [(''C026'', ''Acoplamentos''),
         (''C080'', ''Adesivos e fitas''),
         (''C133'', ''An'' @ [CHR 0xE9] @ ''is el'' @ [CHR 0xE1] @ ''sticos''),
         (''C164'', ''Chumbadores''),
         (''C215'', ''Eletrodos de soldas''),
         (''C241'', ''Gaxetas''),
         (''C270'', ''Juntas de veda'' @ [CHR 0xE7, CHR 0xE3] @ ''o''),
         (''C291'', ''Outros elementos de fixa'' @ [CHR 0xE7, CHR 0xE3] @ ''o e veda'' @ [CHR 0xE7, CHR 0xE3] @ ''o''),
         (''C297'', ''Retentores''),
         (''C308'', ''Parafusos, pregos, porcas, buchas e arruelas''),
         (''C325'', ''Rebites e pinos'')]),
      (''S41'',
        [(''C027'', ''Abrasivos''),
         (''C081'', ''Ferramentas de corte e desbaste''),
         (''C134'', ''Outras ferramentas manuais''),
         (''C165'', ''Ferramentas para constru'' @ [CHR 0xE7, CHR 0xE3] @ ''o civil''),
         (''C216'', ''Ferramentas perfuradoras''),
         (''C739'', ''Acess'' @ [CHR 0xF3] @ ''rios e consum'' @ [CHR 0xED] @ ''veis para ferramentas''),
         (''C740'', ''Alicates''),
         (''C741'', ''Chave allen/hexagonal''),
         (''C742'', ''Chave biela''),
         (''C743'', ''Chave combinada''),
         (''C744'', ''Chave de fenda e Phillips''),
         (''C745'', ''Ferramentas a bateria''),
         (''C746'', ''Ferramentas automotivas''),
         (''C747'', ''Ferramentas de medi'' @ [CHR 0xE7, CHR 0xE3] @ ''o''),
         (''C748'', ''Ferramentas el'' @ [CHR 0xE9] @ ''tricas''),
         (''C749'', ''Ferramentas para jardim''),
         (''C750'', ''Ferramentas para pintura''),
         (''C751'', ''Ferramentas para solda''),
         (''C752'', ''Jogos de chave combinada''),
         (''C753'', ''Jogos de ferramentas''),
         (''C754'', ''Jogos de soquetes''),
         (''C755'', ''Torqu'' @ [CHR 0xED] @ ''metro'')]),
      (''S43'',
        [(''C028'', ''Lonas e toldos''),
         (''C082'', ''Outros materiais MRO''),
         (''C772'', ''Adubos e fertilizantes'')]),
      (''S46'',
        [(''C029'', ''Adaptadores, conex'' @ [CHR 0xF5] @ ''es e terminais''),
         (''C083'', ''Amortecedor''),
         (''C135'', ''Atuador pneum'' @ [CHR 0xE1] @ ''tico''),
         (''C166'', ''Balancin''),
         (''C217'', ''Cilindros''),
         (''C242'', ''Eletrov'' @ [CHR 0xE1] @ ''lvulas''),
         (''C289'', ''Engates r'' @ [CHR 0xE1] @ ''pidos''),
         (''C307'', ''Filtros de '' @ [CHR 0xE1] @ ''gua''),
         (''C324'', ''Filtros de ar''),
         (''C337'', ''Filtros de g'' @ [CHR 0xE1] @ ''s''),
         (''C346'', ''Filtros industriais''),
         (''C358'', ''Flanges''),
         (''C366'', ''Luvas hidr'' @ [CHR 0xE1] @ ''ulicas''),
         (''C377'', ''Mangueiras hidr'' @ [CHR 0xE1] @ ''ulicas e industriais''),
         (''C390'', ''Outros materiais hidr'' @ [CHR 0xE1] @ ''ulicos ou pneum'' @ [CHR 0xE1] @ ''ticos''),
         (''C395'', ''Uni'' @ [CHR 0xE3] @ ''o''),
         (''C400'', ''V'' @ [CHR 0xE1] @ ''lvulas''),
         (''C719'', ''Filtros''),
         (''C722'', ''V'' @ [CHR 0xE1] @ ''lvulas'')]),
      (''S47'',
        [(''C025'', ''Amplificadores''),
         (''C079'', ''Conduletes''),
         (''C132'', ''Fontes de energia''),
         (''C163'', ''Fus'' @ [CHR 0xED] @ ''veis e disjuntores''),
         (''C240'', ''M'' @ [CHR 0xF3] @ ''dulos''),
         (''C269'', ''Outros componentes eletr'' @ [CHR 0xF4] @ ''nicos''),
         (''C290'', ''Outros materiais el'' @ [CHR 0xE9] @ ''tricos''),
         (''C314'', ''Plugs e adaptadores''),
         (''C329'', ''Resist'' @ [CHR 0xEA] @ ''ncias''),
         (''C340'', ''Terminais''),
         (''C350'', ''Tomadas e interruptores''),
         (''C360'', ''Transformadores''),
         (''C773'', ''Cabos e fios el'' @ [CHR 0xE9] @ ''tricos''),
         (''C774'', ''Chaves magn'' @ [CHR 0xE9] @ ''ticas''),
         (''C775'', ''Contatores''),
         (''C776'', ''Energia solar''),
         (''C777'', ''Extens'' @ [CHR 0xF5] @ ''es el'' @ [CHR 0xE9] @ ''tricas e filtros de linha''),
         (''C778'', ''Ferramentas de eletricista''),
         (''C779'', ''Quadros e caixas el'' @ [CHR 0xE9] @ ''tricas''),
         (''C780'', ''Reatores e soquetes''),
         (''C781'', ''Tubos e eletrodutos'')]),
      (''S49'',
        [(''C048'', ''Aditivos''),
         (''C103'', ''Graxas''),
         (''C150'', [CHR 0xD3] @ ''leos lubrificantes''),
         (''C183'', ''Outros fluidos'')]),
      (''S51'',
        [(''C049'', ''Amortecedores''),
         (''C104'', ''Antiderrapantes para correias''),
         (''C151'', ''Correias e componentes''),
         (''C184'', ''Mancal''),
         (''C223'', ''Molas''),
         (''C253'', ''Outros componentes de partes mec'' @ [CHR 0xE2] @ ''nicas''),
         (''C275'', ''Polias''),
         (''C315'', ''Rolamentos''),
         (''C330'', ''Tensores de correias''),
         (''C382'', ''Molas'')]),
      (''S54'',
        [(''C051'', ''Conex'' @ [CHR 0xF5] @ ''es''),
         (''C097'', ''Cotovelos''),
         (''C152'', ''Joelhos''),
         (''C178'', ''Luvas''),
         (''C224'', ''Niples PVC''),
         (''C249'', ''Tubos''),
         (''C278'', ''Uni'' @ [CHR 0xE3] @ ''o'')]),
      (''S71'',
        [(''C716'', ''Conex'' @ [CHR 0xF5] @ ''es''),
         (''C717'', ''Engates''),
         (''C718'', ''Esteira''),
         (''C719'', ''Filtros''),
         (''C720'', ''Mangueiras''),
         (''C721'', ''Outros materiais de automa'' @ [CHR 0xE7, CHR 0xE3] @ ''o industrial''),
         (''C722'', ''V'' @ [CHR 0xE1] @ ''lvulas''),
         (''C723'', ''Ventosas'')]),
      (''S72'',
        [(''C724'', ''Bobinas kraft ou semi kraft''),
         (''C725'', ''Caixas de papel'' @ [CHR 0xE3] @ ''o''),
         (''C726'', ''Embalagens descart'' @ [CHR 0xE1] @ ''veis''),
         (''C727'', ''Embalagens para delivery''),
         (''C728'', ''Envelopes de seguran'' @ [CHR 0xE7] @ ''a''),
         (''C729'', ''Etiquetas e tags''),
         (''C730'', ''Filme stretch''),
         (''C731'', ''Fitas adesivas''),
         (''C732'', ''Fitas, la'' @ [CHR 0xE7] @ ''os e cord'' @ [CHR 0xF5] @ ''es''),
         (''C733'', ''Lacres''),
         (''C734'', ''Latas''),
         (''C735'', ''Pallets''),
         (''C736'', ''Potes e vidros''),
         (''C737'', ''Sacos e sacolas kraft''),
         (''C738'', ''Sacos e sacolas pl'' @ [CHR 0xE1] @ ''sticas'')]),
      (''S73'',
        [(''C214'', ''Outros objetos de ilumina'' @ [CHR 0xE7, CHR 0xE3] @ ''o''),
         (''C756'', ''Abajures e c'' @ [CHR 0xFA] @ ''pulas''),
         (''C757'', ''Cord'' @ [CHR 0xF5] @ ''es de luz''),
         (''C758'', ''Fitas de LED''),
         (''C759'', ''Kits de l'' @ [CHR 0xE2] @ ''mpadas''),
         (''C760'', ''L'' @ [CHR 0xE2] @ ''mpadas de LED''),
         (''C761'', ''L'' @ [CHR 0xE2] @ ''mpadas fluorescentes''),
         (''C762'', ''L'' @ [CHR 0xE2] @ ''mpadas hal'' @ [CHR 0xF3] @ ''genas''),
         (''C763'', ''L'' @ [CHR 0xE2] @ ''mpadas incandescentes''),
         (''C764'', ''L'' @ [CHR 0xE2] @ ''mpadas inteligentes''),
         (''C765'', ''Lumin'' @ [CHR 0xE1] @ ''rias''),
         (''C766'', ''Lustres e pendentes''),
         (''C767'', ''Outros tipos de l'' @ [CHR 0xE2] @ ''mpadas''),
         (''C768'', ''Painel de LED''),
         (''C769'', ''Refletores''),
         (''C770'', ''Soquetes para l'' @ [CHR 0xE2] @ ''mpadas''),
         (''C771'', ''Spots'')]),
      (''S74'',
        [(''C782'', [CHR 0xC1] @ ''cidos''),
         (''C783'', ''Gases''),
         (''C784'', ''Metais qu'' @ [CHR 0xED] @ ''micos''),
         (''C785'', ''Qu'' @ [CHR 0xED] @ ''micos inorg'' @ [CHR 0xE2] @ ''nicos''),
         (''C786'', ''Qu'' @ [CHR 0xED] @ ''micos org'' @ [CHR 0xE2] @ ''nicos''),
         (''C787'', ''Reagentes qu'' @ [CHR 0xED] @ ''micos''),
         (''C788'', ''Solventes'')])]"

definition dict_get :: "('k \<times> 'v) list \<Rightarrow> 'k \<Rightarrow> 'v \<Rightarrow> 'v" where
  \<comment> \<open>\<open>d.get(k, default)\<close>\<close>
  "dict_get d k dflt = (case map_of d k of Some v \<Rightarrow> v | None \<Rightarrow> dflt)"

fun re_search_code :: "char \<Rightarrow> nat \<Rightarrow> string \<Rightarrow> string option" where
  \<comment> \<open>\<open>re.search\<close> of a letter followed by exactly \<open>n\<close> digits (\<open>S\d{2}\<close>, \<open>C\d{3}\<close>):
      the leftmost match\<close>
  "re_search_code c n [] = None"
| "re_search_code c n (x # xs) =
     (if x = c \<and> n \<le> length xs \<and> list_all py_isdecimal (take n xs) then Some (x # take n xs)
      else re_search_code c n xs)"

fun attempts :: "(nat \<Rightarrow> api_outcome) \<Rightarrow> char \<times> nat \<Rightarrow> nat \<Rightarrow> nat list \<Rightarrow> nat \<Rightarrow> world \<Rightarrow>
    string option \<times> world" where
  \<comment> \<open>the \<open>for attempt in range(1, max_retries + 1)\<close> loop of \<open>claude_classify\<close>\<close>
  "attempts api pat max_retries [] backoff w = (None, w)"
| "attempts api pat max_retries (attempt # rest) backoff w =
     (case api (calls w) of
        Reply text \<Rightarrow>
          (re_search_code (fst pat) (snd pat) (py_strip text), w\<lparr>calls := calls w + 1\<rparr>)
      | RateLimitError \<Rightarrow>
          attempts api pat max_retries rest (backoff * 2)
            (w\<lparr>calls := calls w + 1, slept := slept w @ [backoff]\<rparr>)
      | ApiError e \<Rightarrow>
          if attempt = max_retries then (None, w\<lparr>calls := calls w + 1\<rparr>)
          else attempts api pat max_retries rest (backoff * 2)
                 (w\<lparr>calls := calls w + 1, slept := slept w @ [backoff]\<rparr>))"

text \<open>
  \<open>claude_classify\<close> is only called with the default \<open>max_retries = 5\<close> and with the
  patterns \<open>S\d{2}\<close> and \<open>C\d{3}\<close>, given here as the letter and the number of digits. A
  reply ends the loop, with the code found in it or with \<open>None\<close>; a rate-limit error sleeps
  and doubles the delay on every attempt; any other exception does so on all attempts but
  the last.
\<close>

definition claude_classify ::
  "(nat \<Rightarrow> api_outcome) \<Rightarrow> char \<times> nat \<Rightarrow> nat \<Rightarrow> world \<Rightarrow> string option \<times> world" where
  "claude_classify api pat max_retries w = attempts api pat max_retries [1..<max_retries + 1] 1 w"

definition classify_department :: "string \<Rightarrow> string \<times> string" where
  "classify_department product = (''D03'', dict_get departments ''D03'' [])"

definition category_fallback :: "string \<Rightarrow> (string \<times> string) list \<Rightarrow> string \<times> string" where
  \<comment> \<open>the keyword branch of \<open>classify_category\<close>\<close>
  "category_fallback product cats =
     (let product_lower = py_lower product in
      if list_ex (\<lambda>word. py_contains word product_lower)
           [''parafuso'', ''porca'', ''junta'', ''veda'' @ [CHR 0xE7, CHR 0xE3] @ ''o'']
      then (''S39'', dict_get cats ''S39'' [])
      else if list_ex (\<lambda>word. py_contains word product_lower)
           [''ferramenta'', ''chave'', ''furadeira'']
      then (''S41'', dict_get cats ''S41'' [])
      else if list_ex (\<lambda>word. py_contains word product_lower)
           [''disjuntor'', ''rele'', ''contator'', ''modulo'']
      then (''S47'', dict_get cats ''S47'' [])
      else if list_ex (\<lambda>word. py_contains word product_lower)
           [''automa'' @ [CHR 0xE7, CHR 0xE3] @ ''o'', ''clp'', ''simatic'']
      then (''S71'', dict_get cats ''S71'' [])
      else (''S43'', dict_get cats ''S43'' []))"

definition classify_category ::
  "(nat \<Rightarrow> api_outcome) \<Rightarrow> string \<Rightarrow> string \<Rightarrow> world \<Rightarrow> (string \<times> string) \<times> world" where
  "classify_category api product dept w =
     (let cats = dict_get categories_by_dept dept [] in
      if cats = [] then (([], []), w)
      else (case claude_classify api (CHR ''S'', 2) 5 w of
              (cat, w') \<Rightarrow>
                (case cat of
                   Some c \<Rightarrow>
                     if c \<noteq> [] \<and> map_of cats c \<noteq> None then ((c, dict_get cats c []), w')
                     else (category_fallback product cats, w')
                 | None \<Rightarrow> (category_fallback product cats, w'))))"

definition fallback_map :: "(string \<times> string) list" where
  "fallback_map =
     [(''S39'', ''C291''), (''S41'', ''C134''), (''S43'', ''C082''), (''S46'', ''C390''),
      (''S47'', ''C290''), (''S49'', ''C183''), (''S51'', ''C253''), (''S71'', ''C721''),
      (''S73'', ''C214'')]"

definition subcategory_fallback :: "string \<Rightarrow> (string \<times> string) list \<Rightarrow> string \<times> string" where
  \<comment> \<open>the "Others" branch of \<open>classify_subcategory\<close>; \<open>subs\<close> is not empty there\<close>
  "subcategory_fallback cat subs =
     (let fallback_code =
            dict_get fallback_map cat (case subs of [] \<Rightarrow> [] | (code, name) # rest \<Rightarrow> code)
      in (fallback_code, dict_get subs fallback_code []))"

definition classify_subcategory ::
  "(nat \<Rightarrow> api_outcome) \<Rightarrow> string \<Rightarrow> string \<Rightarrow> world \<Rightarrow> (string \<times> string) \<times> world" where
  "classify_subcategory api product cat w =
     (let subs = dict_get subcategories_by_cat cat [] in
      if subs = [] then (([], []), w)
      else (case claude_classify api (CHR ''C'', 3) 5 w of
              (sub, w') \<Rightarrow>
                (case sub of
                   Some s \<Rightarrow>
                     if s \<noteq> [] \<and> map_of subs s \<noteq> None then ((s, dict_get subs s []), w')
                     else (subcategory_fallback cat subs, w')
                 | None \<Rightarrow> (subcategory_fallback cat subs, w'))))"

text \<open>
  The result dict of \<open>classify_product\<close>. Its key \<open>error\<close> is set only in the handler of
  \<open>except Exception\<close>; \<open>claude_classify\<close> catches every exception of the service itself, and
  the dictionary lookups of the three steps cannot raise, so no path of the \<open>try\<close> block
  reaches the handler and \<open>error\<close> stays absent (\<open>None\<close>). Confidence is a real number;
  the code adds the floats 0.33, 0.33 and 0.34.
\<close>

record classification =
  r_product_name :: string
  r_batch_id :: int
  confidence :: real
  dept_code :: string
  dept_name :: string
  cat_code :: string
  cat_name :: string
  sub_code :: string
  sub_name :: string
  error :: "string option"

definition classify_product ::
  "(nat \<Rightarrow> api_outcome) \<Rightarrow> string \<Rightarrow> int \<Rightarrow> world \<Rightarrow> classification \<times> world" where
  "classify_product api product_name batch_id w =
     (case classify_department product_name of
        (dept_code', dept_name') \<Rightarrow>
     (case classify_category api product_name dept_code' w of
        ((cat_code', cat_name'), w1) \<Rightarrow>
     (case (if cat_code' \<noteq> [] then classify_subcategory api product_name cat_code' w1
            else (([], []), w1)) of
        ((sub_code', sub_name'), w2) \<Rightarrow>
          (\<lparr>r_product_name = product_name, r_batch_id = batch_id,
            confidence = 0.33 + (if cat_code' \<noteq> [] then 0.33 else 0)
                              + (if sub_code' \<noteq> [] then 0.34 else 0),
            dept_code = dept_code', dept_name = dept_name',
            cat_code = cat_code', cat_name = cat_name',
            sub_code = sub_code', sub_name = sub_name',
            error = None\<rparr>, w2))))"

section \<open>The product store (database_mro.py)\<close>

text \<open>
  The table \<open>mro_products\<close> is a list of rows; \<open>product_id\<close> is the column \<open>id\<close>. The
  timestamp columns are left out. The connection is taken to stay up once it is made; what
  the server refuses is modelled: a \<open>LIMIT\<close> that is negative or beyond \<open>bigint\<close>, and a
  value that its column does not take (\<open>VARCHAR(10)\<close> for the codes, \<open>VARCHAR(255)\<close> for
  the names, \<open>INTEGER\<close> for \<open>batch_id\<close>). The methods catch the exception:
  \<open>get_pending_products\<close> then returns the empty list, and \<open>update_classification\<close> and
  \<open>mark_as_error\<close> roll back and return \<open>False\<close>.
\<close>

record mro_product =
  product_id :: int
  product_name :: string
  brand :: "string option"
  model :: "string option"
  original_category :: "string option"
  old_department :: "string option"
  old_category :: "string option"
  old_subcategory :: "string option"
  new_department_code :: "string option"
  new_department_name :: "string option"
  new_category_code :: "string option"
  new_category_name :: "string option"
  new_subcategory_code :: "string option"
  new_subcategory_name :: "string option"
  confidence_score :: "real option"
  batch_id :: "int option"
  processing_status :: string
  error_message :: "string option"

definition get_pending_products :: "mro_product list \<Rightarrow> int \<Rightarrow> (int \<times> string) list" where
  \<comment> \<open>the \<open>id\<close> and \<open>product_name\<close> of the pending rows, by \<open>id\<close>; \<open>limit = 0\<close> is falsy: no
      \<open>LIMIT\<close>; a refused \<open>LIMIT\<close> ends in the handler\<close>
  "get_pending_products table limit =
     (let rows = sort_key product_id (filter (\<lambda>p. processing_status p = ''pending'') table);
          found = map (\<lambda>p. (product_id p, product_name p)) rows
      in if limit = 0 then found
         else if limit < 0 \<or> \<not> int8 limit then []
         else take (nat limit) found)"

definition store_accepts :: "classification \<Rightarrow> bool" where
  \<comment> \<open>whether the \<open>UPDATE\<close> of \<open>update_classification\<close> is accepted\<close>
  "store_accepts c =
     (list_all pg_text
        [dept_code c, dept_name c, cat_code c, cat_name c, sub_code c, sub_name c] \<and>
      varchar 10 (dept_code c) \<noteq> None \<and> varchar 255 (dept_name c) \<noteq> None \<and>
      varchar 10 (cat_code c) \<noteq> None \<and> varchar 255 (cat_name c) \<noteq> None \<and>
      varchar 10 (sub_code c) \<noteq> None \<and> varchar 255 (sub_name c) \<noteq> None \<and>
      int4 (r_batch_id c))"

definition set_classification :: "classification \<Rightarrow> mro_product \<Rightarrow> mro_product" where
  \<comment> \<open>the \<open>SET\<close> clause of \<open>update_classification\<close>, when it is accepted\<close>
  "set_classification c p =
     p\<lparr>new_department_code := varchar 10 (dept_code c),
       new_department_name := varchar 255 (dept_name c),
       new_category_code := varchar 10 (cat_code c),
       new_category_name := varchar 255 (cat_name c),
       new_subcategory_code := varchar 10 (sub_code c),
       new_subcategory_name := varchar 255 (sub_name c),
       confidence_score := Some (confidence c),
       batch_id := Some (r_batch_id c),
       processing_status := ''completed''\<rparr>"

definition update_classification ::
  "mro_product list \<Rightarrow> int \<Rightarrow> classification \<Rightarrow> bool \<times> mro_product list" where
  \<comment> \<open>the result of the method and the table after it\<close>
  "update_classification table pid c =
     (if store_accepts c
      then (True, map (\<lambda>p. if product_id p = pid then set_classification c p else p) table)
      else (False, table))"

definition mark_as_error :: "mro_product list \<Rightarrow> int \<Rightarrow> string \<Rightarrow> bool \<times> mro_product list" where
  "mark_as_error table pid msg =
     (if pg_text msg
      then (True, map (\<lambda>p. if product_id p = pid
                            then p\<lparr>processing_status := ''error'', error_message := Some msg\<rparr>
                            else p) table)
      else (False, table))"

section \<open>The batch loop (batch_processor.py)\<close>

text \<open>
  The state of a \<open>BatchProcessor\<close>: its batch size, its running batch identifier, the
  product table behind its database handle, and the world of the classifier. The counters
  of a run are the \<open>stats\<close> dict without its clock entries. The pacing sleeps between
  products and between batches change nothing that is observed here and are left out.
\<close>

record stats =
  total_processed :: nat
  successful :: nat
  failed :: nat
  batches_processed :: nat

record processor =
  batch_size :: int
  current_batch_id :: int
  mro_products :: "mro_product list"
  the_world :: world

fun process_product ::
  "(nat \<Rightarrow> api_outcome) \<Rightarrow> processor \<times> stats \<Rightarrow> int \<times> string \<Rightarrow> processor \<times> stats" where
  \<comment> \<open>the body of \<open>for product in pending_products\<close>; the result of \<open>mark_as_error\<close> is not
      read\<close>
  "process_product api (ps, st) (pid, name) =
     (case classify_product api name (current_batch_id ps) (the_world ps) of
        (classification, w') \<Rightarrow>
          (case error classification of
             Some e \<Rightarrow>
               (ps\<lparr>mro_products := snd (mark_as_error (mro_products ps) pid e),
                   the_world := w'\<rparr>,
                st\<lparr>failed := failed st + 1, total_processed := total_processed st + 1\<rparr>)
           | None \<Rightarrow>
               (case update_classification (mro_products ps) pid classification of
                  (success, table) \<Rightarrow>
                    if success
                    then (ps\<lparr>mro_products := table, the_world := w'\<rparr>,
                          st\<lparr>successful := successful st + 1,
                             total_processed := total_processed st + 1\<rparr>)
                    else (ps\<lparr>mro_products := table, the_world := w'\<rparr>,
                          st\<lparr>failed := failed st + 1,
                             total_processed := total_processed st + 1\<rparr>))))"

text \<open>
  The \<open>while True\<close> loop ends when no pending row is returned. A row whose update the store
  refuses stays pending and is returned again, so the loop need not end: its result is an
  option, \<open>None\<close> for a run that does not return.
\<close>

partial_function (option) process_loop ::
  "(nat \<Rightarrow> api_outcome) \<Rightarrow> processor \<times> stats \<Rightarrow> (processor \<times> stats) option" where
  "process_loop api s =
     (let pending_products = get_pending_products (mro_products (fst s)) (batch_size (fst s)) in
      if pending_products = [] then Some s
      else (case foldl (process_product api) s pending_products of
              (ps', st') \<Rightarrow>
                process_loop api
                  (ps'\<lparr>current_batch_id := current_batch_id ps' + 1\<rparr>,
                   st'\<lparr>batches_processed := batches_processed st' + 1\<rparr>)))"

declare process_loop.simps [code]

definition process_all_pending ::
  "(nat \<Rightarrow> api_outcome) \<Rightarrow> bool \<Rightarrow> processor \<Rightarrow> ((string + stats) \<times> processor) option" where
  \<comment> \<open>\<open>conn_ok\<close> is the result of \<open>self.db.connect()\<close>\<close>
  "process_all_pending api conn_ok ps =
     (if \<not> conn_ok then Some (Inl ''Failed to connect to database'', ps)
      else (case process_loop api
                   (ps, \<lparr>total_processed = 0, successful = 0, failed = 0, batches_processed = 0\<rparr>) of
              None \<Rightarrow> None
            | Some (ps', st) \<Rightarrow> Some (Inr st, ps')))"

definition reset_to_pending :: "mro_product list \<Rightarrow> int \<Rightarrow> mro_product list" where
  \<comment> \<open>\<open>UPDATE mro_products SET processing_status = 'pending', error_message = NULL WHERE id = %s\<close>\<close>
  "reset_to_pending table pid =
     map (\<lambda>p. if product_id p = pid
               then p\<lparr>processing_status := ''pending'', error_message := None\<rparr>
               else p) table"

definition reset_errors :: "mro_product list \<Rightarrow> mro_product list" where
  \<comment> \<open>the reset loop of \<open>reprocess_errors\<close> over the rows selected with status \<open>error\<close>\<close>
  "reset_errors table =
     foldl reset_to_pending table
       (map product_id (sort_key product_id (filter (\<lambda>p. processing_status p = ''error'') table)))"

definition reprocess_errors ::
  "(nat \<Rightarrow> api_outcome) \<Rightarrow> bool \<Rightarrow> bool \<Rightarrow> processor \<Rightarrow> ((string + stats) \<times> processor) option" where
  \<comment> \<open>\<open>conn_ok\<close> and \<open>conn_ok2\<close> are the results of the two calls of \<open>self.db.connect()\<close>:
      the one of \<open>reprocess_errors\<close> and the one of \<open>process_all_pending\<close>\<close>
  "reprocess_errors api conn_ok conn_ok2 ps =
     (if \<not> conn_ok then Some (Inl ''Failed to connect to database'', ps)
      else if filter (\<lambda>p. processing_status p = ''error'') (mro_products ps) = []
      then Some (Inr \<lparr>total_processed = 0, successful = 0, failed = 0, batches_processed = 0\<rparr>, ps)
      else process_all_pending api conn_ok2
             (ps\<lparr>mro_products := reset_errors (mro_products ps)\<rparr>))"

section \<open>Auxiliary definitions for the statements\<close>

text \<open>How often a lookup of \<open>keys\<close> finds the row \<open>r\<close> stored under \<open>hk\<close>.\<close>

definition lookup_hits :: "(string \<times> string) list \<Rightarrow> dictionary_row \<Rightarrow> string \<Rightarrow> nat" where
  "lookup_hits keys r hk = length (filter (\<lambda>(kt, k). k = hk \<and> kt = key_type r) keys)"


text \<open>A small dictionary: one group bound by an exact key, another bound by four weaker keys.\<close>

definition example_row :: "int \<Rightarrow> string \<Rightarrow> dictionary_row" where
  "example_row g kt =
     \<lparr>duplicate_group_id = g, key_type = kt, confidence_weight = weight_of key_weights kt,
      master_product_id = Some g, hit_count = 0\<rparr>"

definition example_db :: database where
  "example_db =
     \<lparr>products_enhanced = [],
      duplicate_dictionary =
        [''porca m8'' \<mapsto> example_row 7 ''exact'',
         ''porcam8'' \<mapsto> example_row 9 ''alpha'',
         ''m8_porca'' \<mapsto> example_row 9 ''sorted'',
         ''porca'' \<mapsto> example_row 9 ''core'',
         ''por'' \<mapsto> example_row 9 ''phon'',
         ''arruela'' \<mapsto> example_row 4 ''core''],
      hash_key_log = []\<rparr>"

text \<open>The same dictionary with the products that its rows refer to, and one more product.\<close>

definition example_product :: "int \<Rightarrow> string \<Rightarrow> product_row" where
  "example_product g name =
     \<lparr>p_id = g, p_original_name = name, p_normalized_name = name,
      p_duplicate_group_id = Some g, p_is_master = True, p_similarity_score = 1\<rparr>"

definition example_catalog :: database where
  "example_catalog =
     example_db\<lparr>products_enhanced :=
       [example_product 4 ''arruela'', example_product 7 ''porca m8'',
        example_product 9 ''porca m8 inox'', example_product 33 ''porca''],
       hash_key_log := [(4, []), (7, []), (9, [])]\<rparr>"



text \<open>The category codes of department D03.\<close>

definition category_codes :: "string list" where
  "category_codes = map fst (dict_get categories_by_dept ''D03'' [])"

text \<open>
  What a run does to a row: \<open>classified_from r r'\<close> says that \<open>r'\<close> is \<open>r\<close> after
  \<open>update_classification\<close> (status \<open>completed\<close>, the error message untouched, department D03,
  the constant confidence); \<open>run_rel\<close> is the invariant of the batch loop.
\<close>

definition classified_from :: "mro_product \<Rightarrow> mro_product \<Rightarrow> bool" where
  "classified_from r r' =
     (product_id r' = product_id r \<and> product_name r' = product_name r \<and>
      processing_status r' = ''completed'' \<and> error_message r' = error_message r \<and>
      new_department_code r' = Some ''D03'' \<and>
      confidence_score r' = Some (0.33 + 0.33 + 0.34))"

definition run_rel :: "mro_product \<Rightarrow> mro_product \<Rightarrow> bool" where
  "run_rel r r' =
     (if processing_status r = ''pending'' then r' = r \<or> classified_from r r' else r' = r)"

text \<open>A service that fails on every call, and two small product tables.\<close>

definition always_failing :: "nat \<Rightarrow> api_outcome" where
  "always_failing n = ApiError ''timeout''"

definition new_row :: "int \<Rightarrow> string \<Rightarrow> string \<Rightarrow> string option \<Rightarrow> mro_product" where
  "new_row i name status msg =
     \<lparr>product_id = i, product_name = name, brand = None, model = None,
      original_category = None, old_department = None, old_category = None,
      old_subcategory = None, new_department_code = None, new_department_name = None,
      new_category_code = None, new_category_name = None, new_subcategory_code = None,
      new_subcategory_name = None, confidence_score = None, batch_id = None,
      processing_status = status, error_message = msg\<rparr>"

definition example_processor :: processor where
  "example_processor =
     \<lparr>batch_size = 10, current_batch_id = 1700000000,
      mro_products = [new_row 1 ''PARAFUSO M8'' ''pending'' None,
                      new_row 2 ''OLEO 1L'' ''pending'' None],
      the_world = \<lparr>calls = 0, slept = []\<rparr>\<rparr>"

definition example_store :: processor where
  "example_store =
     \<lparr>batch_size = 10, current_batch_id = 1700000000,
      mro_products = [new_row 1 ''PARAFUSO M8'' ''error'' (Some ''boom''),
                      new_row 2 ''OLEO 1L'' ''pending'' None,
                      new_row 3 ''CHAVE ALLEN'' ''completed'' None],
      the_world = \<lparr>calls = 0, slept = []\<rparr>\<rparr>"

text \<open>A text that a column \<open>VARCHAR(n)\<close> stores as it is.\<close>

definition fits :: "nat \<Rightarrow> string \<Rightarrow> bool" where
  "fits n s = (pg_text s \<and> varchar n s = Some s)"

text \<open>The number of pending rows, and the table that a run leaves, when the run returns.\<close>

definition pending_count :: "mro_product list \<Rightarrow> nat" where
  "pending_count table = length (filter (\<lambda>p. processing_status p = ''pending'') table)"


definition final_table :: "((string + stats) \<times> processor) option \<Rightarrow> mro_product list option" where
  "final_table result = map_option (\<lambda>(r, ps). mro_products ps) result"

definition has_errors :: "mro_product list \<Rightarrow> bool" where
  "has_errors table = (filter (\<lambda>p. processing_status p = ''error'') table \<noteq> [])"

definition reset_row :: "mro_product \<Rightarrow> mro_product" where
  "reset_row p = p\<lparr>processing_status := ''pending'', error_message := None\<rparr>"

text \<open>
  What the theorems need of the library: a hex digest has 32 characters, and a formatted
  float is not empty. The example library has Python's tables on the code points below 256
  and on the surrogates (which are no spaces, digits or word characters, and have no lower
  case), and Python's digests and formatted floats on the strings of the examples.
\<close>

definition library_ok :: "library \<Rightarrow> bool" where
  "library_ok lib =
     ((\<forall>s. length (md5_hexdigest lib s) = 32) \<and>
      (\<forall>d r. fraction_2f lib d = Some r \<longrightarrow> r \<noteq> []) \<and>
      (\<forall>d r. inches_1f lib d = Some r \<longrightarrow> r \<noteq> []))"

definition latin1_lower :: "int \<Rightarrow> int" where
  "latin1_lower n = (if (65 \<le> n \<and> n \<le> 90) \<or> (192 \<le> n \<and> n \<le> 222 \<and> n \<noteq> 215) then n + 32 else n)"

definition latin1_isspace :: "int \<Rightarrow> bool" where
  "latin1_isspace n = ((9 \<le> n \<and> n \<le> 13) \<or> (28 \<le> n \<and> n \<le> 32) \<or> n = 133 \<or> n = 160)"

definition latin1_isdecimal :: "int \<Rightarrow> bool" where
  "latin1_isdecimal n = (48 \<le> n \<and> n \<le> 57)"

definition latin1_isword :: "int \<Rightarrow> bool" where
  "latin1_isword n =
     ((48 \<le> n \<and> n \<le> 57) \<or> (65 \<le> n \<and> n \<le> 90) \<or> n = 95 \<or> (97 \<le> n \<and> n \<le> 122) \<or>
      n = 170 \<or> n = 178 \<or> n = 179 \<or> n = 181 \<or> n = 185 \<or> n = 186 \<or>
      (188 \<le> n \<and> n \<le> 190) \<or> (192 \<le> n \<and> n \<le> 214) \<or> (216 \<le> n \<and> n \<le> 246) \<or>
      (248 \<le> n \<and> n \<le> 255))"

definition example_library :: library where
  "example_library =
     \<lparr>str_lower = map latin1_lower,
      str_isspace = latin1_isspace,
      re_digit = latin1_isdecimal,
      re_word = latin1_isword,
      md5_hexdigest =
        (\<lambda>s. if s = ustr ''porca m8'' then ustr ''8a79fcc00c58279d37652da4f6eac5b2''
             else if s = ustr ''filtro de ar'' then ustr ''5b661664c41da48b209d7b9cc6f2bc70''
             else ustr ''d41d8cd98f00b204e9800998ecf8427e''),
      fraction_2f =
        (\<lambda>d. if d = ustr ''1/2'' then Some (ustr ''0.50'')
             else if d = ustr ''3/4'' then Some (ustr ''0.75'') else None),
      inches_1f = (\<lambda>d. None)\<rparr>"

section \<open>Properties\<close>

subsection \<open>The lookup loop and the registration loop\<close>


lemma check_step_dict:
  "snd (snd (check_step w st (kt, k))) hk =
     map_option (\<lambda>r. r\<lparr>hit_count := hit_count r + (if k = hk \<and> kt = key_type r then 1 else 0)\<rparr>)
       (snd (snd st) hk)"
proof (cases st)
  case (fields bm bs d)
  show ?thesis
    unfolding fields
    by (cases "d hk"; cases "d k")
       (auto simp: select_binding_def bump_hit_count_def Let_def split: option.splits)
qed

lemma check_fold_dict:
  "snd (snd (foldl (check_step w) st keys)) hk =
     map_option (\<lambda>r. r\<lparr>hit_count := hit_count r + int (lookup_hits keys r hk)\<rparr>) (snd (snd st) hk)"
proof (induction keys arbitrary: st)
  case Nil
  then show ?case by (cases "snd (snd st) hk") (simp_all add: lookup_hits_def)
next
  case (Cons key keys)
  obtain kt k where key: "key = (kt, k)" by (cases key)
  show ?case
    unfolding foldl_Cons key Cons.IH check_step_dict
    by (cases "snd (snd st) hk") (auto simp: lookup_hits_def)
qed





lemma register_key_existing:
  assumes "d k = Some r" and "fits 20 kt" and "fits 255 k" and "int4 pid" and "int4 gid"
  shows "register_key ids pid gid w d (kt, k) = Inr (d(k \<mapsto> r\<lparr>hit_count := hit_count r + 1\<rparr>))"
  using assms by (simp add: register_key_def fits_def)

lemma register_key_accepted:
  assumes "fits 20 kt" and "fits 255 k" and "int4 pid" and "int4 gid" and "pid \<in> set ids"
  shows "\<exists>d'. register_key ids pid gid w d (kt, k) = Inr d' \<and>
           (\<forall>hk r. k \<noteq> hk \<longrightarrow> d hk = Some r \<longrightarrow> d' hk = Some r)"
  using assms by (cases "d k") (simp_all add: register_key_def fits_def)

lemma register_loop_existing:
  assumes "d hk = Some r" and "list_all (\<lambda>(kt, k). fits 20 kt \<and> fits 255 k) keys"
    and "int4 pid" and "int4 gid" and "pid \<in> set ids"
  shows "\<exists>d'. register_loop ids pid gid w d keys = Inr d' \<and>
           d' hk = Some (r\<lparr>hit_count := hit_count r + int (count_list (map snd keys) hk)\<rparr>)"
  using assms(1,2)
proof (induction keys arbitrary: d r)
  case Nil
  then show ?case by simp
next
  case (Cons key keys)
  obtain kt k where key: "key = (kt, k)" by (cases key)
  have f: "fits 20 kt" "fits 255 k" and rest: "list_all (\<lambda>(kt, k). fits 20 kt \<and> fits 255 k) keys"
    using Cons.prems(2) by (simp_all add: key)
  show ?case
  proof (cases "k = hk")
    case True
    let ?d1 = "d(k \<mapsto> r\<lparr>hit_count := hit_count r + 1\<rparr>)"
    have s: "register_key ids pid gid w d (kt, k) = Inr ?d1"
      using Cons.prems(1) True f assms(3,4) by (simp add: register_key_existing)
    have "?d1 hk = Some (r\<lparr>hit_count := hit_count r + 1\<rparr>)" using True by simp
    from Cons.IH [of ?d1 "r\<lparr>hit_count := hit_count r + 1\<rparr>", OF this rest]
    obtain d' where l: "register_loop ids pid gid w ?d1 keys = Inr d'"
      and h: "d' hk = Some (r\<lparr>hit_count := hit_count r + 1,
                hit_count := hit_count (r\<lparr>hit_count := hit_count r + 1\<rparr>)
                             + int (count_list (map snd keys) hk)\<rparr>)"
      by blast
    have "register_loop ids pid gid w d (key # keys) = Inr d'" by (simp only: key register_loop.simps s sum.case l)
    moreover have "d' hk = Some (r\<lparr>hit_count := hit_count r + int (count_list (map snd (key # keys)) hk)\<rparr>)"
      using h True by (simp add: key add.assoc)
    ultimately show ?thesis by blast
  next
    case False
    from register_key_accepted [OF f assms(3,4,5), of w d]
    obtain d1 where s: "register_key ids pid gid w d (kt, k) = Inr d1"
      and keep: "\<forall>hk r. k \<noteq> hk \<longrightarrow> d hk = Some r \<longrightarrow> d1 hk = Some r" by blast
    have "d1 hk = Some r" using keep False Cons.prems(1) by blast
    from Cons.IH [of d1 r, OF this rest]
    obtain d' where l: "register_loop ids pid gid w d1 keys = Inr d'"
      and h: "d' hk = Some (r\<lparr>hit_count := hit_count r + int (count_list (map snd keys) hk)\<rparr>)"
      by blast
    have "register_loop ids pid gid w d (key # keys) = Inr d'" by (simp only: key register_loop.simps s sum.case l)
    moreover have "d' hk = Some (r\<lparr>hit_count := hit_count r + int (count_list (map snd (key # keys)) hk)\<rparr>)"
      using h False by (simp add: key)
    ultimately show ?thesis by blast
  qed
qed





subsection \<open>The classifier always answers\<close>

lemma category_codes_eq:
  "category_codes =
     [''S09'', ''S17'', ''S25'', ''S36'', ''S39'', ''S41'', ''S43'', ''S46'',
      ''S47'', ''S49'', ''S51'', ''S54'', ''S71'', ''S72'', ''S73'', ''S74'']"
  by code_simp

lemma subcategories_all:
  "list_all (\<lambda>cat. dict_get subcategories_by_cat cat [] \<noteq> [] \<and>
     fst (subcategory_fallback cat (dict_get subcategories_by_cat cat [])) \<noteq> []) category_codes"
  by code_simp

lemma subcategories_nonempty:
  "cat \<in> set category_codes \<Longrightarrow>
     dict_get subcategories_by_cat cat [] \<noteq> [] \<and>
     fst (subcategory_fallback cat (dict_get subcategories_by_cat cat [])) \<noteq> []"
  using subcategories_all by (simp add: list_all_iff)

lemma category_fallback_code:
  "fst (category_fallback product cats) \<in> set [''S39'', ''S41'', ''S47'', ''S71'', ''S43'']"
  by (simp add: category_fallback_def Let_def)

lemma classify_category_code:
  "fst (fst (classify_category api product ''D03'' w)) \<in> set category_codes"
proof -
  let ?cats = "dict_get categories_by_dept ''D03'' []"
  have ne: "?cats \<noteq> []" by (simp add: dict_get_def categories_by_dept_def)
  have fb: "fst (category_fallback product ?cats) \<in> set category_codes"
    using category_fallback_code [of product ?cats] by (auto simp: category_codes_eq)
  obtain cat w' where c: "claude_classify api (CHR ''S'', 2) 5 w = (cat, w')"
    by (cases "claude_classify api (CHR ''S'', 2) 5 w")
  show ?thesis
  proof (cases cat)
    case None
    then show ?thesis using fb ne by (simp add: classify_category_def Let_def c)
  next
    case (Some code)
    show ?thesis
    proof (cases "code \<noteq> [] \<and> map_of ?cats code \<noteq> None")
      case True
      then have "code \<in> fst ` set ?cats" by (meson map_of_eq_None_iff)
      then have "code \<in> set category_codes" by (simp add: category_codes_def)
      then show ?thesis using True ne by (simp add: classify_category_def Let_def c Some)
    next
      case False
      then show ?thesis using fb ne by (auto simp: classify_category_def Let_def c Some)
    qed
  qed
qed

lemma classify_subcategory_code:
  assumes "cat \<in> set category_codes"
  shows "fst (fst (classify_subcategory api product cat w)) \<noteq> []"
proof -
  let ?subs = "dict_get subcategories_by_cat cat []"
  note ne = subcategories_nonempty [OF assms]
  obtain sub w' where c: "claude_classify api (CHR ''C'', 3) 5 w = (sub, w')"
    by (cases "claude_classify api (CHR ''C'', 3) 5 w")
  show ?thesis
    using ne by (cases sub) (auto simp: classify_subcategory_def Let_def c)
qed

lemma classify_product_result:
  "error (fst (classify_product api name b w)) = None \<and>
   dept_code (fst (classify_product api name b w)) = ''D03'' \<and>
   cat_code (fst (classify_product api name b w)) \<in> set category_codes \<and>
   sub_code (fst (classify_product api name b w)) \<noteq> [] \<and>
   confidence (fst (classify_product api name b w)) = 0.33 + 0.33 + 0.34"
proof -
  obtain cc cn w1 where cat: "classify_category api name ''D03'' w = ((cc, cn), w1)"
    by (cases "classify_category api name ''D03'' w") auto
  have cc: "cc \<in> set category_codes"
    using classify_category_code [of api name w] by (simp add: cat)
  then have cc_ne: "cc \<noteq> []" by (auto simp: category_codes_eq)
  obtain sc sn w2 where sub: "classify_subcategory api name cc w1 = ((sc, sn), w2)"
    by (cases "classify_subcategory api name cc w1") auto
  have sc: "sc \<noteq> []"
    using classify_subcategory_code [OF cc, of api name w1] by (simp add: sub)
  show ?thesis
    using cc cc_ne sc by (simp add: classify_product_def classify_department_def cat sub)
qed

subsection \<open>Exhausted retries\<close>

lemma attempts_range: "[1..<5 + 1] = [1, 2, 3, 4, 5::nat]"
  by code_simp

lemma attempts_fail_step:
  assumes "\<forall>t. api (calls w) \<noteq> Reply t" and "attempt \<noteq> max_retries"
  shows "attempts api pat max_retries (attempt # rest) backoff w =
         attempts api pat max_retries rest (backoff * 2)
           (w\<lparr>calls := calls w + 1, slept := slept w @ [backoff]\<rparr>)"
  using assms by (cases "api (calls w)") auto

lemma attempts_fail_last:
  assumes "\<forall>t. api (calls w) \<noteq> Reply t"
  shows "attempts api pat m [m] backoff w = (None, w\<lparr>calls := calls w + 1\<rparr>) \<or>
         attempts api pat m [m] backoff w =
           (None, w\<lparr>calls := calls w + 1, slept := slept w @ [backoff]\<rparr>)"
  using assms by (cases "api (calls w)") auto

lemma claude_classify_exhausted:
  assumes fail: "\<forall>k<5. \<forall>t. api (calls w + k) \<noteq> Reply t"
  shows "\<exists>w'. claude_classify api pat 5 w = (None, w') \<and> calls w' = calls w + 5 \<and>
           (slept w' = slept w @ [1, 2, 4, 8] \<or> slept w' = slept w @ [1, 2, 4, 8, 16])"
proof -
  let ?w1 = "w\<lparr>calls := calls w + 1, slept := slept w @ [1]\<rparr>"
  let ?w2 = "w\<lparr>calls := calls w + 2, slept := slept w @ [1, 2]\<rparr>"
  let ?w3 = "w\<lparr>calls := calls w + 3, slept := slept w @ [1, 2, 4]\<rparr>"
  let ?w4 = "w\<lparr>calls := calls w + 4, slept := slept w @ [1, 2, 4, 8]\<rparr>"
  have f: "\<And>k. k < 5 \<Longrightarrow> \<forall>t. api (calls w + k) \<noteq> Reply t" using fail by blast
  have f0: "\<forall>t. api (calls w) \<noteq> Reply t" using f [of 0] by simp
  have f1: "\<forall>t. api (calls ?w1) \<noteq> Reply t" using f [of 1] by simp
  have f2: "\<forall>t. api (calls ?w2) \<noteq> Reply t" using f [of 2] by simp
  have f3: "\<forall>t. api (calls ?w3) \<noteq> Reply t" using f [of 3] by simp
  have f4: "\<forall>t. api (calls ?w4) \<noteq> Reply t" using f [of 4] by simp
  have s1: "attempts api pat 5 (1 # [2, 3, 4, 5]) 1 w =
      attempts api pat 5 [2, 3, 4, 5] (1 * 2) (w\<lparr>calls := calls w + 1, slept := slept w @ [1]\<rparr>)"
    by (rule attempts_fail_step [where api = api and w = "w", OF f0]) simp
  have m1: "(1::nat) * 2 = 2" by simp
  have s2: "attempts api pat 5 (2 # [3, 4, 5]) 2 ?w1 =
      attempts api pat 5 [3, 4, 5] (2 * 2) (?w1\<lparr>calls := calls ?w1 + 1, slept := slept ?w1 @ [2]\<rparr>)"
    by (rule attempts_fail_step [where api = api and w = "?w1", OF f1]) simp
  have r2: "?w1\<lparr>calls := calls ?w1 + 1, slept := slept ?w1 @ [2]\<rparr> = ?w2" by simp
  have m2: "(2::nat) * 2 = 4" by simp
  have s3: "attempts api pat 5 (3 # [4, 5]) 4 ?w2 =
      attempts api pat 5 [4, 5] (4 * 2) (?w2\<lparr>calls := calls ?w2 + 1, slept := slept ?w2 @ [4]\<rparr>)"
    by (rule attempts_fail_step [where api = api and w = "?w2", OF f2]) simp
  have r3: "?w2\<lparr>calls := calls ?w2 + 1, slept := slept ?w2 @ [4]\<rparr> = ?w3" by simp
  have m3: "(4::nat) * 2 = 8" by simp
  have s4: "attempts api pat 5 (4 # [5]) 8 ?w3 =
      attempts api pat 5 [5] (8 * 2) (?w3\<lparr>calls := calls ?w3 + 1, slept := slept ?w3 @ [8]\<rparr>)"
    by (rule attempts_fail_step [where api = api and w = "?w3", OF f3]) simp
  have r4: "?w3\<lparr>calls := calls ?w3 + 1, slept := slept ?w3 @ [8]\<rparr> = ?w4" by simp
  have m4: "(8::nat) * 2 = 16" by simp
  have a: "claude_classify api pat 5 w = attempts api pat 5 [5] 16 ?w4"
    by (simp only: claude_classify_def attempts_range s1 [unfolded m1] s2 [unfolded r2 m2]
        s3 [unfolded r3 m3] s4 [unfolded r4 m4])
  from attempts_fail_last [where api = api and w = ?w4 and pat = pat and m = 5 and backoff = 16, OF f4]
  show ?thesis
  proof
    assume "attempts api pat 5 [5] 16 ?w4 = (None, ?w4\<lparr>calls := calls ?w4 + 1\<rparr>)"
    then have "claude_classify api pat 5 w = (None, ?w4\<lparr>calls := calls ?w4 + 1\<rparr>)"
      by (simp only: a)
    then show ?thesis by (intro exI [of _ "?w4\<lparr>calls := calls ?w4 + 1\<rparr>"]) simp
  next
    assume "attempts api pat 5 [5] 16 ?w4 =
              (None, ?w4\<lparr>calls := calls ?w4 + 1, slept := slept ?w4 @ [16]\<rparr>)"
    then have "claude_classify api pat 5 w =
              (None, ?w4\<lparr>calls := calls ?w4 + 1, slept := slept ?w4 @ [16]\<rparr>)"
      by (simp only: a)
    then show ?thesis
      by (intro exI [of _ "?w4\<lparr>calls := calls ?w4 + 1, slept := slept ?w4 @ [16]\<rparr>"]) simp
  qed
qed

lemma classify_product_exhausted:
  assumes fail: "\<forall>k<10. \<forall>t. api (calls w + k) \<noteq> Reply t"
  shows "cat_code (fst (classify_product api name b w)) =
           fst (category_fallback name (dict_get categories_by_dept ''D03'' [])) \<and>
         sub_code (fst (classify_product api name b w)) =
           fst (subcategory_fallback (cat_code (fst (classify_product api name b w)))
                  (dict_get subcategories_by_cat (cat_code (fst (classify_product api name b w))) [])) \<and>
         calls (snd (classify_product api name b w)) = calls w + 10"
proof -
  let ?cats = "dict_get categories_by_dept ''D03'' []"
  have ne: "?cats \<noteq> []" by (simp add: dict_get_def categories_by_dept_def)
  have first: "\<forall>k<5. \<forall>t. api (calls w + k) \<noteq> Reply t" using fail by simp
  obtain w1 where c1: "claude_classify api (CHR ''S'', 2) 5 w = (None, w1)"
    and n1: "calls w1 = calls w + 5"
    using claude_classify_exhausted [OF first, of "(CHR ''S'', 2)"] by blast
  have cat: "classify_category api name ''D03'' w = (category_fallback name ?cats, w1)"
    using ne by (simp add: classify_category_def Let_def c1)
  obtain cc cn where fb: "category_fallback name ?cats = (cc, cn)"
    by (cases "category_fallback name ?cats")
  have cc: "cc \<in> set category_codes"
    using classify_category_code [of api name w] by (simp add: cat fb)
  note sn = subcategories_nonempty [OF cc]
  have cc_ne: "cc \<noteq> []" using cc by (auto simp: category_codes_eq)
  have second: "\<forall>k<5. \<forall>t. api (calls w1 + k) \<noteq> Reply t"
  proof (intro allI impI)
    fix k t assume "k < (5::nat)"
    then have "5 + k < 10" by simp
    then have "api (calls w + (5 + k)) \<noteq> Reply t" using fail by blast
    then show "api (calls w1 + k) \<noteq> Reply t" by (simp add: n1 add.assoc)
  qed
  obtain w2 where c2: "claude_classify api (CHR ''C'', 3) 5 w1 = (None, w2)"
    and n2: "calls w2 = calls w1 + 5"
    using claude_classify_exhausted [OF second, of "(CHR ''C'', 3)"] by blast
  have sub: "classify_subcategory api name cc w1 =
       (subcategory_fallback cc (dict_get subcategories_by_cat cc []), w2)"
    using sn by (simp add: classify_subcategory_def Let_def c2)
  obtain sc sn' where sfb: "subcategory_fallback cc (dict_get subcategories_by_cat cc []) = (sc, sn')"
    by (cases "subcategory_fallback cc (dict_get subcategories_by_cat cc [])")
  show ?thesis
    using cc_ne n1 n2 by (simp add: classify_product_def classify_department_def cat fb sub sfb)
qed

subsection \<open>The store takes every classification\<close>

lemma dict_get_fits:
  assumes "list_all (\<lambda>(k, v). fits n v) d"
  shows "fits n (dict_get d k [])"
proof (cases "map_of d k")
  case None
  then show ?thesis by (simp add: dict_get_def fits_def varchar_def pg_text_def)
next
  case (Some v)
  then have "(k, v) \<in> set d" by (rule map_of_SomeD)
  then have "fits n v" using assms by (auto simp: list_all_iff)
  then show ?thesis by (simp add: dict_get_def Some)
qed

lemma department_fits:
  "fits 10 ''D03'' \<and> fits 255 (dict_get departments ''D03'' [])"
  by code_simp

lemma categories_fit:
  "list_all (\<lambda>(c, n). fits 10 c \<and> fits 255 n) (dict_get categories_by_dept ''D03'' [])"
  by code_simp

lemma subcategories_fit:
  "list_all (\<lambda>cat.
      list_all (\<lambda>(s, n). fits 10 s \<and> fits 255 n) (dict_get subcategories_by_cat cat []) \<and>
      fits 10 (fst (subcategory_fallback cat (dict_get subcategories_by_cat cat []))))
     category_codes"
  by code_simp

lemma category_fallback_name:
  "snd (category_fallback product cats) = dict_get cats (fst (category_fallback product cats)) []"
  by (simp add: category_fallback_def Let_def)

lemma classify_category_fits:
  "fits 10 (fst (fst (classify_category api product ''D03'' w))) \<and>
   fits 255 (snd (fst (classify_category api product ''D03'' w)))"
proof -
  let ?cats = "dict_get categories_by_dept ''D03'' []"
  let ?r = "fst (classify_category api product ''D03'' w)"
  have ne: "?cats \<noteq> []" by (simp add: dict_get_def categories_by_dept_def)
  have name: "snd ?r = dict_get ?cats (fst ?r) []"
  proof -
    obtain cat w' where c: "claude_classify api (CHR ''S'', 2) 5 w = (cat, w')"
      by (cases "claude_classify api (CHR ''S'', 2) 5 w")
    show ?thesis
      using ne category_fallback_name [of product ?cats]
      by (cases cat) (auto simp: classify_category_def Let_def c)
  qed
  have "fst ?r \<in> set category_codes" by (rule classify_category_code)
  then obtain n where "(fst ?r, n) \<in> set ?cats" by (auto simp: category_codes_def)
  then have code: "fits 10 (fst ?r)" using categories_fit by (auto simp: list_all_iff)
  have "list_all (\<lambda>(c, n). fits 255 n) ?cats"
    using categories_fit by (auto simp: list_all_iff)
  then have "fits 255 (dict_get ?cats (fst ?r) [])" by (rule dict_get_fits)
  with code name show ?thesis by simp
qed

lemma classify_subcategory_fits:
  assumes "cat \<in> set category_codes"
  shows "fits 10 (fst (fst (classify_subcategory api product cat w))) \<and>
         fits 255 (snd (fst (classify_subcategory api product cat w)))"
proof -
  let ?subs = "dict_get subcategories_by_cat cat []"
  let ?r = "fst (classify_subcategory api product cat w)"
  have ne: "?subs \<noteq> []" using subcategories_nonempty [OF assms] by simp
  have tab: "list_all (\<lambda>(s, n). fits 10 s \<and> fits 255 n) ?subs"
    and fb: "fits 10 (fst (subcategory_fallback cat ?subs))"
    using subcategories_fit assms by (auto simp: list_all_iff)
  have names: "list_all (\<lambda>(s, n). fits 255 n) ?subs"
    using tab by (auto simp: list_all_iff)
  have fbn: "snd (subcategory_fallback cat ?subs) =
      dict_get ?subs (fst (subcategory_fallback cat ?subs)) []"
    by (simp add: subcategory_fallback_def Let_def)
  obtain sub w' where c: "claude_classify api (CHR ''C'', 3) 5 w = (sub, w')"
    by (cases "claude_classify api (CHR ''C'', 3) 5 w")
  have name: "snd ?r = dict_get ?subs (fst ?r) []"
    using ne fbn by (cases sub) (auto simp: classify_subcategory_def Let_def c)
  have code: "fits 10 (fst ?r)"
  proof (cases "\<exists>s. sub = Some s \<and> s \<noteq> [] \<and> map_of ?subs s \<noteq> None")
    case True
    then obtain s where s: "sub = Some s" "s \<noteq> []" "map_of ?subs s \<noteq> None" by blast
    then obtain n where "(s, n) \<in> set ?subs" by (auto dest: map_of_SomeD)
    then have "fits 10 s" using tab by (auto simp: list_all_iff)
    then show ?thesis using ne s by (simp add: classify_subcategory_def Let_def c)
  next
    case False
    then have "?r = subcategory_fallback cat ?subs"
      using ne by (cases sub) (auto simp: classify_subcategory_def Let_def c)
    then show ?thesis using fb by simp
  qed
  have "fits 255 (dict_get ?subs (fst ?r) [])" using names by (rule dict_get_fits)
  with code name show ?thesis by simp
qed

lemma classify_product_fits:
  "fits 10 (dept_code (fst (classify_product api name b w))) \<and>
   fits 255 (dept_name (fst (classify_product api name b w))) \<and>
   fits 10 (cat_code (fst (classify_product api name b w))) \<and>
   fits 255 (cat_name (fst (classify_product api name b w))) \<and>
   fits 10 (sub_code (fst (classify_product api name b w))) \<and>
   fits 255 (sub_name (fst (classify_product api name b w)))"
proof -
  obtain cc cn w1 where cat: "classify_category api name ''D03'' w = ((cc, cn), w1)"
    by (cases "classify_category api name ''D03'' w") auto
  have cc: "cc \<in> set category_codes"
    using classify_category_code [of api name w] by (simp add: cat)
  then have cc_ne: "cc \<noteq> []" by (auto simp: category_codes_eq)
  have cf: "fits 10 cc \<and> fits 255 cn"
    using classify_category_fits [of api name w] by (simp add: cat)
  obtain sc sn w2 where sub: "classify_subcategory api name cc w1 = ((sc, sn), w2)"
    by (cases "classify_subcategory api name cc w1") auto
  have sf: "fits 10 sc \<and> fits 255 sn"
    using classify_subcategory_fits [OF cc, of api name w1] by (simp add: sub)
  show ?thesis
    using cc_ne cf sf department_fits
    by (simp add: classify_product_def classify_department_def cat sub)
qed

lemma store_accepts_classification:
  "store_accepts (fst (classify_product api name b w)) = int4 b"
proof -
  have "r_batch_id (fst (classify_product api name b w)) = b"
    by (simp add: classify_product_def split: prod.splits)
  then show ?thesis
    using classify_product_fits [of api name b w] by (simp add: store_accepts_def fits_def)
qed

lemma set_classification_fits:
  assumes "c = fst (classify_product api name b w)"
  shows "set_classification c p =
     p\<lparr>new_department_code := Some (dept_code c),
       new_department_name := Some (dept_name c),
       new_category_code := Some (cat_code c),
       new_category_name := Some (cat_name c),
       new_subcategory_code := Some (sub_code c),
       new_subcategory_name := Some (sub_name c),
       confidence_score := Some (confidence c),
       batch_id := Some (r_batch_id c),
       processing_status := ''completed''\<rparr>"
  using classify_product_fits [of api name b w] assms
  by (simp add: set_classification_def fits_def)
subsection \<open>The invariant of the batch loop\<close>

lemma classify_product_error: "error (fst (classify_product api name b w)) = None"
  by (simp add: classify_product_def split: prod.splits)

lemma process_product_table:
  assumes "int4 (current_batch_id (fst s))"
  shows "mro_products (fst (process_product api s (pid, name))) =
     map (\<lambda>p. if product_id p = pid
               then set_classification
                      (fst (classify_product api name (current_batch_id (fst s)) (the_world (fst s)))) p
               else p) (mro_products (fst s))"
proof (cases s)
  case (Pair ps st)
  obtain c w' where c: "classify_product api name (current_batch_id ps) (the_world ps) = (c, w')"
    by (cases "classify_product api name (current_batch_id ps) (the_world ps)")
  have e: "error c = None" using classify_product_error [of api name "current_batch_id ps" "the_world ps"]
    by (simp add: c)
  have "store_accepts c"
    using store_accepts_classification [of api name "current_batch_id ps" "the_world ps"] assms
    by (simp add: c Pair)
  then show ?thesis using e by (simp add: Pair c update_classification_def)
qed

lemma process_product_world:
  "the_world (fst (process_product api (ps, st) (pid, name))) =
     snd (classify_product api name (current_batch_id ps) (the_world ps))"
proof -
  obtain c w' where c: "classify_product api name (current_batch_id ps) (the_world ps) = (c, w')"
    by (cases "classify_product api name (current_batch_id ps) (the_world ps)")
  show ?thesis by (cases "error c") (simp_all add: c split: prod.splits)
qed

lemma process_product_frame:
  "batch_size (fst (process_product api s x)) = batch_size (fst s) \<and>
   current_batch_id (fst (process_product api s x)) = current_batch_id (fst s)"
proof -
  obtain pid name where x: "x = (pid, name)" by (cases x)
  obtain ps st where s: "s = (ps, st)" by (cases s)
  show ?thesis by (simp add: x s split: prod.splits option.splits)
qed

lemma fold_frame:
  "batch_size (fst (foldl (process_product api) s xs)) = batch_size (fst s) \<and>
   current_batch_id (fst (foldl (process_product api) s xs)) = current_batch_id (fst s)"
proof (induction xs arbitrary: s)
  case Nil
  then show ?case by simp
next
  case (Cons x xs)
  from Cons.IH [of "process_product api s x"] process_product_frame [of api s x]
  show ?case by simp
qed

lemma pending_count_update_le:
  "pending_count (map (\<lambda>p. if product_id p = pid then set_classification c p else p) table)
     \<le> pending_count table"
proof -
  have "length (filter (\<lambda>p. processing_status p = ''pending'')
          (map (\<lambda>p. if product_id p = pid then set_classification c p else p) table))
      \<le> length (filter (\<lambda>p. processing_status p = ''pending'') table)"
    by (induction table) (auto simp: set_classification_def)
  then show ?thesis by (simp add: pending_count_def)
qed

lemma pending_count_update_less:
  assumes "\<exists>p \<in> set table. product_id p = pid \<and> processing_status p = ''pending''"
  shows "pending_count (map (\<lambda>p. if product_id p = pid then set_classification c p else p) table)
           < pending_count table"
  using assms
proof (induction table)
  case Nil
  then show ?case by simp
next
  case (Cons q table)
  have le: "pending_count (map (\<lambda>p. if product_id p = pid then set_classification c p else p) table)
      \<le> pending_count table"
    by (rule pending_count_update_le)
  show ?case
  proof (cases "product_id q = pid \<and> processing_status q = ''pending''")
    case True
    then show ?thesis using le by (simp add: pending_count_def set_classification_def)
  next
    case False
    then have "\<exists>p \<in> set table. product_id p = pid \<and> processing_status p = ''pending''"
      using Cons.prems by auto
    from Cons.IH [OF this] show ?thesis
      by (auto simp: pending_count_def set_classification_def)
  qed
qed

lemma fold_pending_le:
  assumes "int4 (current_batch_id (fst s))"
  shows "pending_count (mro_products (fst (foldl (process_product api) s xs)))
     \<le> pending_count (mro_products (fst s))"
  using assms
proof (induction xs arbitrary: s)
  case Nil
  then show ?case by simp
next
  case (Cons x xs)
  obtain pid name where x: "x = (pid, name)" by (cases x)
  have le: "pending_count (mro_products (fst (process_product api s (pid, name))))
          \<le> pending_count (mro_products (fst s))"
    by (simp add: process_product_table [OF Cons.prems] pending_count_update_le)
  have "int4 (current_batch_id (fst (process_product api s (pid, name))))"
    using Cons.prems process_product_frame [of api s "(pid, name)"] by simp
  from Cons.IH [OF this] le show ?case by (simp add: x)
qed

lemma get_pending_products_set:
  "(pid, name) \<in> set (get_pending_products table limit) \<Longrightarrow>
     \<exists>p \<in> set table. product_id p = pid \<and> processing_status p = ''pending''"
  by (auto simp: get_pending_products_def Let_def split: if_splits dest!: in_set_takeD)

lemma batch_pending_decreases:
  assumes "get_pending_products table limit \<noteq> []" and "mro_products (fst s) = table"
    and "int4 (current_batch_id (fst s))"
  shows "pending_count (mro_products (fst (foldl (process_product api) s
            (get_pending_products table limit)))) < pending_count table"
proof -
  obtain pid name rest where b: "get_pending_products table limit = (pid, name) # rest"
    using assms(1) by (cases "get_pending_products table limit") auto
  then have "(pid, name) \<in> set (get_pending_products table limit)" by simp
  from get_pending_products_set [OF this]
  have "\<exists>p \<in> set table. product_id p = pid \<and> processing_status p = ''pending''" .
  then have "pending_count (mro_products (fst (process_product api s (pid, name))))
      < pending_count table"
    by (simp add: process_product_table [OF assms(3)] assms(2) pending_count_update_less)
  moreover have "int4 (current_batch_id (fst (process_product api s (pid, name))))"
    using assms(3) process_product_frame [of api s "(pid, name)"] by simp
  then have "pending_count (mro_products (fst (foldl (process_product api)
      (process_product api s (pid, name)) rest)))
      \<le> pending_count (mro_products (fst (process_product api s (pid, name))))"
    by (rule fold_pending_le)
  ultimately show ?thesis by (simp add: b)
qed

lemma run_rel_refl: "list_all2 run_rel t t"
  by (simp add: list_all2_refl run_rel_def)

lemma run_rel_ids: "list_all2 run_rel t t' \<Longrightarrow> map product_id t' = map product_id t"
proof (induction rule: list_all2_induct)
  case Nil
  then show ?case by simp
next
  case (Cons r t r' t')
  then show ?case by (auto simp: run_rel_def classified_from_def split: if_splits)
qed

lemma update_keeps_rel:
  assumes rel: "list_all2 run_rel t t'" and d: "distinct (map product_id t)"
    and r0: "\<exists>r0 \<in> set t. product_id r0 = pid \<and> processing_status r0 = ''pending''"
    and c: "error c = None" "confidence c = 0.33 + 0.33 + 0.34" "dept_code c = ''D03''"
  shows "list_all2 run_rel t
           (map (\<lambda>p. if product_id p = pid then set_classification c p else p) t')"
proof -
  let ?g = "\<lambda>p. if product_id p = pid then set_classification c p else p"
  have inj: "inj_on product_id (set t)" using d by (simp add: distinct_map)
  have step: "run_rel r (?g r')" if "r \<in> set t" and "run_rel r r'" for r r'
  proof (cases "product_id r' = pid")
    case False
    then show ?thesis using that by simp
  next
    case True
    have same: "product_id r = product_id r'"
      using that(2) by (auto simp: run_rel_def classified_from_def split: if_splits)
    obtain q where q: "q \<in> set t" "product_id q = pid" "processing_status q = ''pending''"
      using r0 by blast
    have "r = q" using inj that(1) q(1,2) same True by (auto dest: inj_onD)
    then have pend: "processing_status r = ''pending''" using q(3) by simp
    then have "r' = r \<or> classified_from r r'" using that(2) by (simp add: run_rel_def)
    then have "classified_from r (?g r')"
      using True c by (auto simp: classified_from_def set_classification_def varchar_def)
    then show ?thesis using pend by (simp add: run_rel_def)
  qed
  have "list_all2 (\<lambda>r r'. run_rel r (?g r')) t t'"
    using rel step by (rule list.rel_mono_strong)
  then show ?thesis by (simp add: list_all2_map2)
qed

lemma fold_keeps_rel:
  assumes "list_all2 run_rel t (mro_products (fst s))" and "distinct (map product_id t)"
    and "\<forall>(pid, name) \<in> set xs. \<exists>r0 \<in> set t. product_id r0 = pid \<and> processing_status r0 = ''pending''"
    and "int4 (current_batch_id (fst s))"
  shows "list_all2 run_rel t (mro_products (fst (foldl (process_product api) s xs)))"
  using assms
proof (induction xs arbitrary: s)
  case Nil
  then show ?case by simp
next
  case (Cons x xs)
  obtain pid name where x: "x = (pid, name)" by (cases x)
  let ?c = "fst (classify_product api name (current_batch_id (fst s)) (the_world (fst s)))"
  have r0: "\<exists>r0 \<in> set t. product_id r0 = pid \<and> processing_status r0 = ''pending''"
    using Cons.prems(3) by (simp add: x)
  have "list_all2 run_rel t
          (map (\<lambda>p. if product_id p = pid then set_classification ?c p else p) (mro_products (fst s)))"
    using update_keeps_rel [OF Cons.prems(1,2) r0, of ?c] classify_product_result [of api name]
    by simp
  then have rel: "list_all2 run_rel t (mro_products (fst (process_product api s (pid, name))))"
    by (simp add: process_product_table [OF Cons.prems(4)])
  have b: "int4 (current_batch_id (fst (process_product api s (pid, name))))"
    using Cons.prems(4) process_product_frame [of api s "(pid, name)"] by simp
  from Cons.IH [OF rel Cons.prems(2) _ b] Cons.prems(3) show ?case by (simp add: x)
qed

lemma pending_in_original:
  assumes "list_all2 run_rel t t'" and "(pid, name) \<in> set (get_pending_products t' limit)"
  shows "\<exists>r0 \<in> set t. product_id r0 = pid \<and> processing_status r0 = ''pending''"
proof -
  from get_pending_products_set [OF assms(2)]
  obtain q where q: "q \<in> set t'" "product_id q = pid" "processing_status q = ''pending''" by blast
  from q(1) obtain i where i: "i < length t'" "t' ! i = q" by (auto simp: in_set_conv_nth)
  have len: "length t = length t'" using assms(1) by (rule list_all2_lengthD)
  have rr: "run_rel (t ! i) q" using assms(1) i by (auto simp: list_all2_conv_all_nth)
  have "q = t ! i"
    using rr q(3) by (auto simp: run_rel_def classified_from_def split: if_splits)
  then show ?thesis using q i len by (metis nth_mem)
qed

lemma no_pending_batch:
  assumes "get_pending_products t limit = []" and "0 \<le> limit" and "int8 limit"
  shows "pending_count t = 0"
proof -
  let ?rows = "sort_key product_id (filter (\<lambda>p. processing_status p = ''pending'') t)"
  have "map (\<lambda>p. (product_id p, product_name p)) ?rows = []"
    using assms by (cases "limit = 0") (auto simp: get_pending_products_def Let_def take_eq_Nil)
  then have "length ?rows = 0" by simp
  then show ?thesis by (simp add: pending_count_def)
qed

text \<open>
  The loop returns when the batch identifiers it will use are values of \<open>INTEGER\<close>: every
  batch takes at least one row out of the pending ones, and uses one identifier.
\<close>

lemma loop_returns:
  assumes "pending_count (mro_products ps) = n"
    and "distinct (map product_id t)" and "list_all2 run_rel t (mro_products ps)"
    and "0 \<le> batch_size ps" and "int8 (batch_size ps)"
    and "- 2147483648 \<le> current_batch_id ps"
    and "current_batch_id ps + int n \<le> 2147483648"
  shows "\<exists>ps' st'. process_loop api (ps, st) = Some (ps', st') \<and>
           list_all2 run_rel t (mro_products ps') \<and> pending_count (mro_products ps') = 0"
  using assms
proof (induction n arbitrary: ps st rule: less_induct)
  case (less n)
  let ?pending = "get_pending_products (mro_products ps) (batch_size ps)"
  show ?case
  proof (cases "?pending = []")
    case True
    have "pending_count (mro_products ps) = 0"
      using True less.prems(4,5) by (rule no_pending_batch)
    moreover have "process_loop api (ps, st) = Some (ps, st)"
      using True by (subst process_loop.simps) simp
    ultimately show ?thesis using less.prems(3) by simp
  next
    case False
    obtain ps1 st1 where f: "foldl (process_product api) (ps, st) ?pending = (ps1, st1)"
      by (cases "foldl (process_product api) (ps, st) ?pending")
    obtain pid name where "(pid, name) \<in> set ?pending"
      using False by (cases ?pending) auto
    then have "\<exists>p \<in> set (mro_products ps). product_id p = pid \<and> processing_status p = ''pending''"
      by (rule get_pending_products_set)
    then have "filter (\<lambda>p. processing_status p = ''pending'') (mro_products ps) \<noteq> []"
      by (auto simp: filter_empty_conv)
    then have pos: "0 < n" using less.prems(1) by (auto simp: pending_count_def)
    have b: "int4 (current_batch_id (fst (ps, st)))"
      using pos less.prems(6,7) by (simp add: int4_def)
    have orig: "\<forall>(pid, name) \<in> set ?pending.
        \<exists>r0 \<in> set t. product_id r0 = pid \<and> processing_status r0 = ''pending''"
      using pending_in_original [of t "mro_products ps"] less.prems(3) by auto
    have "list_all2 run_rel t (mro_products (fst (foldl (process_product api) (ps, st) ?pending)))"
      using fold_keeps_rel [of t "(ps, st)" ?pending api] less.prems(2,3) orig b by simp
    then have rel1: "list_all2 run_rel t (mro_products ps1)" by (simp add: f)
    have "pending_count (mro_products (fst (foldl (process_product api) (ps, st) ?pending)))
        < pending_count (mro_products ps)"
      using batch_pending_decreases [OF False _ b, of api] by simp
    then have dec: "pending_count (mro_products ps1) < n" using less.prems(1) by (simp add: f)
    have fr: "batch_size ps1 = batch_size ps" "current_batch_id ps1 = current_batch_id ps"
      using fold_frame [of api "(ps, st)" ?pending] by (simp_all add: f)
    let ?ps2 = "ps1\<lparr>current_batch_id := current_batch_id ps1 + 1\<rparr>"
    let ?st2 = "st1\<lparr>batches_processed := batches_processed st1 + 1\<rparr>"
    have "\<exists>ps' st'. process_loop api (?ps2, ?st2) = Some (ps', st') \<and>
           list_all2 run_rel t (mro_products ps') \<and> pending_count (mro_products ps') = 0"
    proof (rule less.IH [OF dec])
      show "pending_count (mro_products ?ps2) = pending_count (mro_products ps1)" by simp
      show "distinct (map product_id t)" by (rule less.prems(2))
      show "list_all2 run_rel t (mro_products ?ps2)" using rel1 by simp
      show "0 \<le> batch_size ?ps2" using less.prems(4) fr by simp
      show "int8 (batch_size ?ps2)" using less.prems(5) fr by simp
      show "- 2147483648 \<le> current_batch_id ?ps2" using less.prems(6) fr by simp
      show "current_batch_id ?ps2 + int (pending_count (mro_products ps1)) \<le> 2147483648"
        using less.prems(7) fr dec by simp
    qed
    moreover have "process_loop api (ps, st) = process_loop api (?ps2, ?st2)"
      using False by (subst process_loop.simps) (simp add: f)
    ultimately show ?thesis by simp
  qed
qed

lemma run_result:
  assumes "distinct (map product_id (mro_products ps))"
    and "0 \<le> batch_size ps" and "batch_size ps < 2 ^ 63"
    and "- (2 ^ 31) \<le> current_batch_id ps"
    and "current_batch_id ps + int (length (mro_products ps)) < 2 ^ 31"
  shows "\<exists>st ps'. process_all_pending api True ps = Some (Inr st, ps') \<and>
           list_all2 (\<lambda>r r'. if processing_status r = ''pending'' then classified_from r r' else r' = r)
             (mro_products ps) (mro_products ps')"
proof -
  let ?st0 = "\<lparr>total_processed = 0, successful = 0, failed = 0, batches_processed = 0\<rparr>"
  have n: "pending_count (mro_products ps) \<le> length (mro_products ps)"
    by (simp add: pending_count_def)
  have "\<exists>ps' st'. process_loop api (ps, ?st0) = Some (ps', st') \<and>
           list_all2 run_rel (mro_products ps) (mro_products ps') \<and>
           pending_count (mro_products ps') = 0"
  proof (rule loop_returns [OF refl assms(1) run_rel_refl assms(2)])
    show "int8 (batch_size ps)" using assms(2,3) by (simp add: int8_def)
    show "- 2147483648 \<le> current_batch_id ps" using assms(4) by simp
    show "current_batch_id ps + int (pending_count (mro_products ps)) \<le> 2147483648"
      using assms(5) n by simp
  qed
  then obtain ps' st' where l: "process_loop api (ps, ?st0) = Some (ps', st')"
    and rel: "list_all2 run_rel (mro_products ps) (mro_products ps')"
    and z: "pending_count (mro_products ps') = 0" by blast
  have np: "\<And>r'. r' \<in> set (mro_products ps') \<Longrightarrow> processing_status r' \<noteq> ''pending''"
    using z by (auto simp: pending_count_def filter_empty_conv)
  have "list_all2 (\<lambda>r r'. if processing_status r = ''pending'' then classified_from r r' else r' = r)
           (mro_products ps) (mro_products ps')"
    using rel
  proof (rule list.rel_mono_strong)
    fix r r' assume "r \<in> set (mro_products ps)" "r' \<in> set (mro_products ps')" "run_rel r r'"
    then show "if processing_status r = ''pending'' then classified_from r r' else r' = r"
      using np [of r'] by (auto simp: run_rel_def)
  qed
  moreover have "process_all_pending api True ps = Some (Inr st', ps')"
    by (simp add: process_all_pending_def l)
  ultimately show ?thesis by blast
qed
subsection \<open>The reset of the failed products\<close>

lemma foldl_reset:
  "foldl reset_to_pending t ids =
     map (\<lambda>p. if product_id p \<in> set ids then reset_row p else p) t"
proof (induction ids arbitrary: t)
  case Nil
  then show ?case by simp
next
  case (Cons pid ids)
  have "reset_to_pending t pid = map (\<lambda>p. if product_id p = pid then reset_row p else p) t"
    by (simp add: reset_to_pending_def reset_row_def)
  then show ?case by (simp add: Cons.IH reset_row_def comp_def) 
qed

lemma reset_errors_map:
  assumes "distinct (map product_id t)"
  shows "reset_errors t = map (\<lambda>p. if processing_status p = ''error'' then reset_row p else p) t"
proof -
  let ?ids = "map product_id (sort_key product_id (filter (\<lambda>p. processing_status p = ''error'') t))"
  have inj: "inj_on product_id (set t)" using assms by (simp add: distinct_map)
  have "(product_id p \<in> set ?ids) = (processing_status p = ''error'')" if "p \<in> set t" for p
  proof
    assume "product_id p \<in> set ?ids"
    then obtain q where "q \<in> set t" "processing_status q = ''error''" "product_id q = product_id p"
      by auto
    then show "processing_status p = ''error''" using inj that by (auto dest: inj_onD)
  next
    assume "processing_status p = ''error''"
    then show "product_id p \<in> set ?ids" using that by auto
  qed
  then have "map (\<lambda>p. if product_id p \<in> set ?ids then reset_row p else p) t =
             map (\<lambda>p. if processing_status p = ''error'' then reset_row p else p) t"
    by (intro map_cong) auto
  then show ?thesis by (simp add: reset_errors_def foldl_reset)
qed

subsection \<open>The dimension key\<close>

lemma re_findall_all:
  "(\<And>prev s v n. m prev s = Some (v, n) \<Longrightarrow> P v) \<Longrightarrow> \<forall>v \<in> set (re_findall m prev s). P v"
proof (induction m prev s rule: re_findall.induct)
  case (1 m prev)
  then show ?case by simp
next
  case (2 m prev c cs)
  note ok = "2.prems"
  show ?case
  proof (cases "m prev (c # cs)")
    case None
    then show ?thesis using "2.IH"(1) ok by simp
  next
    case (Some vn)
    obtain v n where vn: "vn = (v, n)" by (cases vn)
    have mv: "m prev (c # cs) = Some (v, n)" using Some vn by simp
    have "P v" using mv by (rule ok)
    moreover have "\<forall>v \<in> set (re_findall m (Some (last (c # take (n - 1) cs))) (drop (n - 1) cs)). P v"
      using "2.IH"(2) [OF mv refl] ok by blast
    ultimately show ?thesis using mv by simp
  qed
qed

lemma py_join_nonempty:
  "xs \<noteq> [] \<Longrightarrow> \<forall>x \<in> set xs. x \<noteq> [] \<Longrightarrow> py_join sep xs \<noteq> []"
  by (induction sep xs rule: py_join.induct) auto

lemma found_dimensions_nonempty: "\<forall>d \<in> set (found_dimensions lib text). d \<noteq> []"
proof -
  have m: "\<forall>v \<in> set (re_findall (match_metric lib) None (str_lower lib text)). v \<noteq> []"
    by (rule re_findall_all) (auto simp: match_metric_def split: list.splits if_splits)
  have f: "\<forall>v \<in> set (re_findall (match_fraction lib) None (str_lower lib text)). v \<noteq> []"
    by (rule re_findall_all) (auto simp: match_fraction_def Let_def split: list.splits if_splits)
  show ?thesis
    using m f by (auto simp: found_dimensions_def Let_def split: list.splits)
qed

lemma normalize_dim_nonempty:
  "library_ok lib \<Longrightarrow> d \<noteq> [] \<Longrightarrow> normalize_dim lib d \<noteq> []"
  by (auto simp: normalize_dim_def library_ok_def split: option.splits)

lemma extract_dimensions_nonempty:
  "library_ok lib \<Longrightarrow> \<forall>d \<in> set (extract_dimensions lib t). d \<noteq> []"
  using found_dimensions_nonempty [of lib t]
  by (auto simp: extract_dimensions_def normalize_dim_nonempty)


subsection \<open>The keys of two products\<close>

lemma generate_hash_keys_porca_m8:
  "generate_hash_keys example_library (ustr ''porca m8'') (ustr ''PORCA M8'') =
     Inr [(''exact'', ustr ''porca m8''), (''alpha'', ustr ''porcam8''),
          (''sorted'', ustr ''m8_porca''), (''core'', ustr ''porca''),
          (''dim'', ustr ''8a79fcc00c''), (''phon'', ustr ''por'')]"
  by code_simp

lemma generate_hash_keys_filtro_de_ar:
  "generate_hash_keys example_library (ustr ''filtro de ar'') (ustr ''FILTRO DE AR'') =
     Inr [(''exact'', ustr ''filtro de ar''), (''alpha'', ustr ''filtrodear''),
          (''sorted'', ustr ''ar_de_filtro''), (''core'', ustr ''filtro''),
          (''dim'', ustr ''5b661664c4''), (''phon'', ustr ''fil'')]"
  by code_simp

text \<open>
  C1. Two calls of \<open>get_next_group_id\<close> are claimed to return different identifiers even when
  no product was saved between them. The function reads
  \<open>COALESCE(MAX(duplicate_group_id), 0) + 1\<close> from the saved products, and \<open>detect_duplicates\<close>
  saves nothing: in one batch on an empty database the two unrelated new masters
  \<open>porca m8\<close> and \<open>filtro de ar\<close>, with the hash keys that \<open>generate_hash_keys\<close> gives
  them, both receive group 1.
\<close>

theorem get_next_group_id_repeats:
  "map c_duplicate_group_id
     (fst (detect_duplicates
        \<lparr>products_enhanced = [], duplicate_dictionary = Map.empty, hash_key_log = []\<rparr>
        key_weights
        [\<lparr>original_name = ''PORCA M8'', normalized_name = ''porca m8'',
          hash_keys = [(''exact'', ''porca m8''), (''alpha'', ''porcam8''),
                       (''sorted'', ''m8_porca''), (''core'', ''porca''),
                       (''dim'', ''8a79fcc00c''), (''phon'', ''por'')],
          c_duplicate_group_id = None, similarity_score = None, is_master = None\<rparr>,
         \<lparr>original_name = ''FILTRO DE AR'', normalized_name = ''filtro de ar'',
          hash_keys = [(''exact'', ''filtro de ar''), (''alpha'', ''filtrodear''),
                       (''sorted'', ''ar_de_filtro''), (''core'', ''filtro''),
                       (''dim'', ''5b661664c4''), (''phon'', ''fil'')],
          c_duplicate_group_id = None, similarity_score = None, is_master = None\<rparr>]))
   = [Some 1, Some 1] \<and>
   map is_master
     (fst (detect_duplicates
        \<lparr>products_enhanced = [], duplicate_dictionary = Map.empty, hash_key_log = []\<rparr>
        key_weights
        [\<lparr>original_name = ''PORCA M8'', normalized_name = ''porca m8'',
          hash_keys = [(''exact'', ''porca m8''), (''alpha'', ''porcam8''),
                       (''sorted'', ''m8_porca''), (''core'', ''porca''),
                       (''dim'', ''8a79fcc00c''), (''phon'', ''por'')],
          c_duplicate_group_id = None, similarity_score = None, is_master = None\<rparr>,
         \<lparr>original_name = ''FILTRO DE AR'', normalized_name = ''filtro de ar'',
          hash_keys = [(''exact'', ''filtro de ar''), (''alpha'', ''filtrodear''),
                       (''sorted'', ''ar_de_filtro''), (''core'', ''filtro''),
                       (''dim'', ''5b661664c4''), (''phon'', ''fil'')],
          c_duplicate_group_id = None, similarity_score = None, is_master = None\<rparr>]))
   = [Some True, Some True]"
  by code_simp

text \<open>
  C2. Normalizing twice is claimed to give the same string as normalizing once. The
  replacement of \<open>sext\<close> by \<open>sextavado\<close> is a plain substring replacement, and its
  result contains \<open>sext\<close> again: the name \<open>sext\<close> normalizes to \<open>sextavado\<close>, and
  \<open>sextavado\<close> normalizes to \<open>sextavadoavado\<close>. The normalized form that the classifier
  prompt gives as its example, \<open>parafuso sextavado 12.7mm inox\<close>, is not kept either.
\<close>

theorem normalize_product_name_sext:
  "normalize_product_name ''sext'' = ''sextavado'' \<and>
   normalize_product_name (normalize_product_name ''sext'') = ''sextavadoavado'' \<and>
   normalize_product_name ''parafuso sextavado 12.7mm inox'' =
     ''parafuso sextavadoavado 12.7mm inox''"
  by code_simp

text \<open>
  C3. A product whose classifier calls all fail is claimed to end with status \<open>error\<close> and
  the failure message recorded. \<open>claude_classify\<close> swallows every exception and returns
  \<open>None\<close> once its attempts are used up, and the callers then fall back to the keyword
  category and the "Others" subcategory: with a service that always times out, the run
  returns and both products of the batch end \<open>completed\<close> with no error message.
\<close>

theorem exhausted_retries_end_completed:
  "map_option (map processing_status)
     (final_table (process_all_pending always_failing True example_processor))
     = Some [''completed'', ''completed''] \<and>
   map_option (map error_message)
     (final_table (process_all_pending always_failing True example_processor))
     = Some [None, None]"
  by code_simp

text \<open>
  C3, as the code has it. When the ten calls made for a product all fail (five for the
  category and five for the subcategory, counted from the calls made so far),
  \<open>claude_classify\<close> makes its five attempts, sleeping 1, 2, 4, 8 (and, after a final
  rate-limit error, 16) seconds, and returns \<open>None\<close>; processing the product sets its row to
  \<open>completed\<close> with the category of the keyword fallback, the subcategory of the "Others"
  fallback and the constant confidence, leaves its error message untouched and changes no
  other row; and the run does not stop at such a product: it returns, every row that was
  pending ends \<open>completed\<close> with its error message untouched, and every other row is
  unchanged. This holds where the store takes what the run sends: row identifiers are
  distinct, the batch size is a \<open>LIMIT\<close> the server accepts (not negative, below \<open>2^63\<close>),
  and the batch identifiers of the run, one per batch from \<open>current_batch_id\<close> on, are values
  of the \<open>INTEGER\<close> column \<open>batch_id\<close> (from \<open>-2^31\<close> to \<open>2^31 - 1\<close>; the run has at most as
  many batches as the table has rows).
\<close>

theorem exhausted_retries_fall_back:
  assumes "\<forall>k<10. \<forall>t. api (calls (the_world ps) + k) \<noteq> Reply t"
    and "distinct (map product_id (mro_products ps))"
    and "0 \<le> batch_size ps" and "batch_size ps < 2 ^ 63"
    and "- (2 ^ 31) \<le> current_batch_id ps"
    and "current_batch_id ps + int (length (mro_products ps)) < 2 ^ 31"
  shows "(\<exists>w'. claude_classify api pat 5 (the_world ps) = (None, w') \<and>
            calls w' = calls (the_world ps) + 5 \<and>
            (slept w' = slept (the_world ps) @ [1, 2, 4, 8] \<or>
             slept w' = slept (the_world ps) @ [1, 2, 4, 8, 16])) \<and>
         list_all2 (\<lambda>r r'.
             if product_id r = pid
             then processing_status r' = ''completed'' \<and> error_message r' = error_message r \<and>
                  new_category_code r' =
                    Some (fst (category_fallback name (dict_get categories_by_dept ''D03'' []))) \<and>
                  new_subcategory_code r' =
                    Some (fst (subcategory_fallback (the (new_category_code r'))
                                 (dict_get subcategories_by_cat (the (new_category_code r')) []))) \<and>
                  confidence_score r' = Some (0.33 + 0.33 + 0.34)
             else r' = r)
           (mro_products ps) (mro_products (fst (process_product api (ps, st) (pid, name)))) \<and>
         calls (the_world (fst (process_product api (ps, st) (pid, name)))) =
           calls (the_world ps) + 10 \<and>
         (\<exists>st' ps'. process_all_pending api True ps = Some (Inr st', ps') \<and>
            list_all2 (\<lambda>r r'. if processing_status r = ''pending'' then classified_from r r' else r' = r)
              (mro_products ps) (mro_products ps'))"
proof -
  let ?w = "the_world ps"
  let ?c = "fst (classify_product api name (current_batch_id ps) ?w)"
  have first: "\<forall>k<5. \<forall>t. api (calls ?w + k) \<noteq> Reply t" using assms(1) by simp
  note a = claude_classify_exhausted [OF first, of pat]
  note ex = classify_product_exhausted [OF assms(1), of name "current_batch_id ps"]
  note res = classify_product_result [of api name "current_batch_id ps" ?w]
  have i4: "int4 (current_batch_id (fst (ps, st)))" using assms(5,6) by (simp add: int4_def)
  have tab: "mro_products (fst (process_product api (ps, st) (pid, name))) =
        map (\<lambda>p. if product_id p = pid then set_classification ?c p else p) (mro_products ps)"
    using process_product_table [OF i4, of api pid name] by simp
  have b: "list_all2 (\<lambda>r r'.
             if product_id r = pid
             then processing_status r' = ''completed'' \<and> error_message r' = error_message r \<and>
                  new_category_code r' =
                    Some (fst (category_fallback name (dict_get categories_by_dept ''D03'' []))) \<and>
                  new_subcategory_code r' =
                    Some (fst (subcategory_fallback (the (new_category_code r'))
                                 (dict_get subcategories_by_cat (the (new_category_code r')) []))) \<and>
                  confidence_score r' = Some (0.33 + 0.33 + 0.34)
             else r' = r)
           (mro_products ps) (mro_products (fst (process_product api (ps, st) (pid, name))))"
    unfolding tab list_all2_map2
    using ex res by (intro list_all2_refl) (simp add: set_classification_fits [of ?c api name])
  have c: "calls (the_world (fst (process_product api (ps, st) (pid, name)))) = calls ?w + 10"
    unfolding process_product_world using ex by simp
  from a b c run_result [OF assms(2,3,4,5,6), of api] show ?thesis by blast
qed

theorem exhausted_retries_fall_back_witness:
  "map_option (map processing_status)
     (final_table (process_all_pending always_failing True example_processor))
     = Some [''completed'', ''completed''] \<and>
   map_option (map error_message)
     (final_table (process_all_pending always_failing True example_processor))
     = Some [None, None] \<and>
   fst (claude_classify always_failing (CHR ''S'', 2) 5 (the_world example_processor)) = None \<and>
   map new_category_code
     (mro_products (fst (process_product always_failing
        (example_processor,
         \<lparr>total_processed = 0, successful = 0, failed = 0, batches_processed = 0\<rparr>)
        (1, ''PARAFUSO M8''))))
     = [Some ''S39'', None]"
proof -
  let ?st = "\<lparr>total_processed = 0, successful = 0, failed = 0, batches_processed = 0\<rparr>"
  have a: "\<forall>k<10. \<forall>t. always_failing (calls (the_world example_processor) + k) \<noteq> Reply t"
    by (simp add: always_failing_def)
  have b: "distinct (map product_id (mro_products example_processor))"
    by (simp add: example_processor_def new_row_def)
  have c: "0 \<le> batch_size example_processor" "batch_size example_processor < 2 ^ 63"
    "- (2 ^ 31) \<le> current_batch_id example_processor"
    "current_batch_id example_processor + int (length (mro_products example_processor)) < 2 ^ 31"
    by (simp_all add: example_processor_def)
  have fb: "fst (category_fallback ''PARAFUSO M8'' (dict_get categories_by_dept ''D03'' [])) = ''S39''"
    by code_simp
  note t = exhausted_retries_fall_back [OF a b c, of "(CHR ''S'', 2)" 1 "''PARAFUSO M8''" ?st]
  from t obtain st' ps' where
    r: "process_all_pending always_failing True example_processor = Some (Inr st', ps')"
    and l: "list_all2 (\<lambda>r r'. if processing_status r = ''pending'' then classified_from r r' else r' = r)
           (mro_products example_processor) (mro_products ps')"
    by blast
  from l have "map processing_status (mro_products ps') = [''completed'', ''completed''] \<and>
      map error_message (mro_products ps') = [None, None]"
    by (auto simp: example_processor_def new_row_def list_all2_Cons1 classified_from_def)
  then have run: "map_option (map processing_status)
     (final_table (process_all_pending always_failing True example_processor))
     = Some [''completed'', ''completed''] \<and>
   map_option (map error_message)
     (final_table (process_all_pending always_failing True example_processor))
     = Some [None, None]"
    by (simp add: r final_table_def)
  from t have cl: "fst (claude_classify always_failing (CHR ''S'', 2) 5 (the_world example_processor)) = None"
    by auto
  from t have "list_all2 (\<lambda>r r'.
             if product_id r = 1
             then processing_status r' = ''completed'' \<and> error_message r' = error_message r \<and>
                  new_category_code r' =
                    Some (fst (category_fallback ''PARAFUSO M8'' (dict_get categories_by_dept ''D03'' []))) \<and>
                  new_subcategory_code r' =
                    Some (fst (subcategory_fallback (the (new_category_code r'))
                                 (dict_get subcategories_by_cat (the (new_category_code r')) []))) \<and>
                  confidence_score r' = Some (0.33 + 0.33 + 0.34)
             else r' = r)
           (mro_products example_processor)
           (mro_products (fst (process_product always_failing (example_processor, ?st)
              (1, ''PARAFUSO M8''))))"
    by blast
  then have one: "map new_category_code
     (mro_products (fst (process_product always_failing (example_processor, ?st)
        (1, ''PARAFUSO M8''))))
     = [Some ''S39'', None]"
    unfolding fb
    by (auto simp: example_processor_def new_row_def list_all2_Cons1 simp del: process_product.simps)
  from run cl one show ?thesis by blast
qed

text \<open>
  C4. Match resolution is claimed to leave the dictionary unchanged, \<open>hit_count\<close>
  included. The lookup itself runs \<open>UPDATE duplicate_dictionary SET hit_count = hit_count + 1\<close>
  for every key it finds ("update hit count for analytics"): looking up the core key
  \<open>arruela\<close> changes its row.
\<close>

theorem check_duplicate_by_keys_writes_hit_count:
  "duplicate_dictionary
     (snd (check_duplicate_by_keys example_db [(''core'', ''arruela'')] key_weights)) ''arruela''
   \<noteq> duplicate_dictionary example_db ''arruela''"
  by (simp add: check_duplicate_by_keys_def example_db_def example_row_def select_binding_def
      bump_hit_count_def Let_def weight_of_def key_weights_def)

text \<open>
  C4, as the code has it. A lookup adds and removes no row and changes no binding
  (\<open>duplicate_group_id\<close>, \<open>key_type\<close>, \<open>confidence_weight\<close>, \<open>master_product_id\<close>);
  the products table and the key log are untouched. Its only write is \<open>hit_count\<close>:
  a row gains one hit for every looked-up key that finds it.
\<close>

theorem check_duplicate_by_keys_frame:
  "products_enhanced (snd (check_duplicate_by_keys db keys weights)) = products_enhanced db \<and>
   hash_key_log (snd (check_duplicate_by_keys db keys weights)) = hash_key_log db \<and>
   duplicate_dictionary (snd (check_duplicate_by_keys db keys weights)) hk =
     map_option (\<lambda>r. r\<lparr>hit_count := hit_count r + int (lookup_hits keys r hk)\<rparr>)
       (duplicate_dictionary db hk)"
proof -
  obtain bm bs d where f: "foldl (check_step weights) (None, 0, duplicate_dictionary db) keys = (bm, bs, d)"
    by (cases "foldl (check_step weights) (None, 0, duplicate_dictionary db) keys")
  have "d hk = map_option (\<lambda>r. r\<lparr>hit_count := hit_count r + int (lookup_hits keys r hk)\<rparr>)
       (duplicate_dictionary db hk)"
    using check_fold_dict [of weights "(None, 0, duplicate_dictionary db)" keys hk] by (simp add: f)
  then show ?thesis by (simp add: check_duplicate_by_keys_def f)
qed

theorem check_duplicate_by_keys_frame_witness:
  "duplicate_dictionary
     (snd (check_duplicate_by_keys example_db [(''core'', ''arruela'')] key_weights)) ''arruela''
   = Some ((example_row 4 ''core'')\<lparr>hit_count := 1\<rparr>) \<and>
   duplicate_dictionary
     (snd (check_duplicate_by_keys example_db [(''core'', ''arruela'')] key_weights)) ''porca''
   = Some (example_row 9 ''core'')"
  using check_duplicate_by_keys_frame [of example_db "[(''core'', ''arruela'')]" key_weights "''arruela''"]
        check_duplicate_by_keys_frame [of example_db "[(''core'', ''arruela'')]" key_weights "''porca''"]
  by (simp add: example_db_def example_row_def lookup_hits_def)

text \<open>
  C5. An insert attempt on a present \<open>hash_key\<close> is claimed to add one to \<open>hit_count\<close>
  whatever the product is. A call for a product that is not in \<open>products_enhanced\<close> is
  refused: every key of the call below is in the dictionary, so no row of the dictionary is
  checked against the products, but the row for \<open>hash_key_log\<close> is, and the call raises
  before its \<open>commit\<close>; no hit is stored.
\<close>

theorem register_product_keys_unknown_product:
  "duplicate_dictionary example_catalog ''porca'' = Some (example_row 9 ''core'') \<and>
   34 \<notin> set (map p_id (products_enhanced example_catalog)) \<and>
   register_product_keys example_catalog 34
     [(''exact'', ''porca''), (''alpha'', ''porca''), (''phon'', ''por'')] 12 key_weights =
     Inl IntegrityError"
  by (simp add: example_catalog_def example_db_def example_product_def register_product_keys_def
      register_key_def pg_text_def varchar_def int4_def)

text \<open>
  C5, as the code has it. First writer wins, for the calls that the store accepts: the
  product is in \<open>products_enhanced\<close>, the group and product identifiers are values of
  \<open>INTEGER\<close>, and the key types and keys are stored as they are (no NUL character, at most
  20 and 255 characters). For a \<open>hash_key\<close> already in the dictionary, one insert attempt
  (\<open>INSERT ... ON CONFLICT (hash_key) DO UPDATE SET hit_count = hit_count + 1\<close>), with any
  such product, group, key type and any weights, keeps the row's group, key type, weight and
  master product and adds one to \<open>hit_count\<close>; a whole call of \<open>register_product_keys\<close>
  returns, adds one per key of the product that has this value, and leaves the products as
  they are.
\<close>

theorem register_product_keys_first_writer_wins:
  assumes "duplicate_dictionary db hk = Some r"
    and "pid \<in> set (map p_id (products_enhanced db))" and "int4 pid" and "int4 gid"
    and "fits 20 kt" and "fits 255 hk"
    and "list_all (\<lambda>(kt, k). fits 20 kt \<and> fits 255 k) keys"
  shows "register_key (map p_id (products_enhanced db)) pid gid weights
             (duplicate_dictionary db) (kt, hk) =
           Inr ((duplicate_dictionary db)(hk \<mapsto> r\<lparr>hit_count := hit_count r + 1\<rparr>)) \<and>
         (\<exists>db'. register_product_keys db pid keys gid weights = Inr db' \<and>
            duplicate_dictionary db' hk =
              Some (r\<lparr>hit_count := hit_count r + int (count_list (map snd keys) hk)\<rparr>) \<and>
            products_enhanced db' = products_enhanced db)"
proof -
  have one: "register_key (map p_id (products_enhanced db)) pid gid weights
             (duplicate_dictionary db) (kt, hk) =
           Inr ((duplicate_dictionary db)(hk \<mapsto> r\<lparr>hit_count := hit_count r + 1\<rparr>))"
    using register_key_existing [of "duplicate_dictionary db" hk r kt pid gid] assms(1,5,6,3,4)
    by simp
  from register_loop_existing [of "duplicate_dictionary db" hk r keys pid gid
      "map p_id (products_enhanced db)" weights, OF assms(1,7,3,4,2)]
  obtain d' where l: "register_loop (map p_id (products_enhanced db)) pid gid weights
        (duplicate_dictionary db) keys = Inr d'"
    and h: "d' hk = Some (r\<lparr>hit_count := hit_count r + int (count_list (map snd keys) hk)\<rparr>)"
    by blast
  have "register_product_keys db pid keys gid weights =
      Inr (db\<lparr>duplicate_dictionary := d', hash_key_log := hash_key_log db @ [(pid, keys)]\<rparr>)"
    using assms(2,3) by (simp add: register_product_keys_def l)
  with one h show ?thesis by simp
qed

theorem register_product_keys_first_writer_wins_witness:
  "duplicate_dictionary example_catalog ''porca'' = Some (example_row 9 ''core'') \<and>
   33 \<in> set (map p_id (products_enhanced example_catalog)) \<and>
   register_key (map p_id (products_enhanced example_catalog)) 33 12 key_weights
       (duplicate_dictionary example_catalog) (''exact'', ''porca'') =
     Inr ((duplicate_dictionary example_catalog)
            (''porca'' \<mapsto> (example_row 9 ''core'')\<lparr>hit_count := 1\<rparr>)) \<and>
   (\<exists>db'. register_product_keys example_catalog 33
        [(''exact'', ''porca''), (''alpha'', ''porca''), (''phon'', ''por'')] 12 key_weights =
        Inr db' \<and>
      duplicate_dictionary db' ''porca'' = Some ((example_row 9 ''core'')\<lparr>hit_count := 2\<rparr>) \<and>
      products_enhanced db' = products_enhanced example_catalog)"
proof -
  have h: "duplicate_dictionary example_catalog ''porca'' = Some (example_row 9 ''core'')"
    by (simp add: example_catalog_def example_db_def)
  have p: "33 \<in> set (map p_id (products_enhanced example_catalog))"
    by (simp add: example_catalog_def example_product_def)
  have i: "int4 33" "int4 12" by (simp_all add: int4_def)
  have f: "fits 20 ''exact''" "fits 255 ''porca''"
    by (simp_all add: fits_def pg_text_def varchar_def)
  have k: "list_all (\<lambda>(kt, k). fits 20 kt \<and> fits 255 k)
      [(''exact'', ''porca''), (''alpha'', ''porca''), (''phon'', ''por'')]"
    by (simp add: fits_def pg_text_def varchar_def)
  show ?thesis
    using h p register_product_keys_first_writer_wins [of example_catalog "''porca''"
        "example_row 9 ''core''" 33 12 "''exact''"
        "[(''exact'', ''porca''), (''alpha'', ''porca''), (''phon'', ''por'')]" key_weights,
        OF h p i f k]
    by (simp add: example_row_def)
qed





text \<open>
  C8. The six keys are claimed for every input string. A name in which no dimension is
  found goes through \<open>normalized_name.encode()\<close>, which raises on a string with a lone
  surrogate: for the name \<open>porca\<close> followed by the first half of a surrogate pair (U+D83D),
  as a reply of the service cut in the middle of an emoji has it, the call raises
  \<open>UnicodeEncodeError\<close> and returns no key.
\<close>

theorem generate_hash_keys_lone_surrogate:
  "generate_hash_keys example_library (ustr ''porca '' @ [0xD83D]) (ustr ''PORCA'') =
     Inl UnicodeEncodeError"
  by code_simp

text \<open>
  C8, as the code has it. \<open>generate_hash_keys\<close> raises exactly for the names that have a
  surrogate code point and no dimension. For every other name, so for every name that
  encodes to UTF-8, the empty one included, it returns the six keys \<open>exact\<close>, \<open>alpha\<close>,
  \<open>sorted\<close>, \<open>core\<close>, \<open>dim\<close>, \<open>phon\<close>, and the \<open>dim\<close> key is never empty: when no dimension
  is extracted it is the first 10 characters of the MD5 hex digest of the name, and
  otherwise it joins the extracted dimensions, none of which is empty.
\<close>

theorem generate_hash_keys_complete:
  assumes "library_ok lib"
  shows "if extract_dimensions lib name = [] \<and> list_ex surrogate name
         then generate_hash_keys lib name orig = Inl UnicodeEncodeError
         else (\<exists>keys. generate_hash_keys lib name orig = Inr keys \<and>
                 map fst keys = [''exact'', ''alpha'', ''sorted'', ''core'', ''dim'', ''phon''] \<and>
                 dict_get keys ''dim'' [] \<noteq> [] \<and>
                 (if extract_dimensions lib name = []
                  then dict_get keys ''dim'' [] = take 10 (md5_hexdigest lib name) \<and>
                       length (dict_get keys ''dim'' []) = 10
                  else dict_get keys ''dim'' [] =
                         py_join (ustr ''_'') (extract_dimensions lib name)))"
proof -
  have len: "length (md5_hexdigest lib name) = 32" using assms by (simp add: library_ok_def)
  have ne: "extract_dimensions lib name \<noteq> [] \<Longrightarrow>
      py_join (ustr ''_'') (extract_dimensions lib name) \<noteq> []"
    using py_join_nonempty [OF _ extract_dimensions_nonempty [OF assms, of name]] by blast
  have h: "take 10 (md5_hexdigest lib name) \<noteq> []" using len by auto
  show ?thesis
    using len ne h by (simp add: generate_hash_keys_def Let_def dict_get_def)
qed

theorem generate_hash_keys_complete_witness:
  "library_ok example_library \<and>
   generate_hash_keys example_library [] [] =
     Inr [(''exact'', []), (''alpha'', []), (''sorted'', []), (''core'', []),
          (''dim'', ustr ''d41d8cd98f''), (''phon'', [])] \<and>
   (\<exists>keys. generate_hash_keys example_library [] [] = Inr keys \<and>
      map fst keys = [''exact'', ''alpha'', ''sorted'', ''core'', ''dim'', ''phon''] \<and>
      dict_get keys ''dim'' [] \<noteq> [] \<and> length (dict_get keys ''dim'' []) = 10)"
proof -
  have ok: "library_ok example_library"
    by (simp add: library_ok_def example_library_def ustr_def)
  have e: "generate_hash_keys example_library [] [] =
     Inr [(''exact'', []), (''alpha'', []), (''sorted'', []), (''core'', []),
          (''dim'', ustr ''d41d8cd98f''), (''phon'', [])]"
    by code_simp
  have d: "extract_dimensions example_library [] = []" by code_simp
  from generate_hash_keys_complete [OF ok, of "[]" "[]"] d
  have "\<exists>keys. generate_hash_keys example_library [] [] = Inr keys \<and>
      map fst keys = [''exact'', ''alpha'', ''sorted'', ''core'', ''dim'', ''phon''] \<and>
      dict_get keys ''dim'' [] \<noteq> [] \<and> length (dict_get keys ''dim'' []) = 10"
    by auto
  with ok e show ?thesis by blast
qed

text \<open>
  C9. Reprocessing is claimed to change no status other than \<open>error\<close>. The command resets
  the failed rows and then calls \<open>process_all_pending\<close>, which classifies every pending row:
  a product that was already pending before the command ends \<open>completed\<close>.
\<close>

theorem reprocess_errors_also_runs_pending:
  "map processing_status (mro_products example_store) = [''error'', ''pending'', ''completed''] \<and>
   map_option (map processing_status)
     (final_table (reprocess_errors always_failing True True example_store))
     = Some [''completed'', ''completed'', ''completed'']"
  by code_simp

text \<open>
  C9, as the code has it. The reset sets every row with status \<open>error\<close> to \<open>pending\<close> with
  no error message and changes no other row. In the same run the pending loop then picks
  these rows up: the command returns and each of them ends classified. A row that was
  already pending is classified by that loop too (when there was a failed row at all;
  otherwise the command returns at once). Rows of any other status are unchanged. This holds
  where both connections are made and the store takes what the run sends: row identifiers
  are distinct, the batch size is a \<open>LIMIT\<close> the server accepts (not negative, below
  \<open>2^63\<close>), and the batch identifiers of the run, one per batch from \<open>current_batch_id\<close> on,
  are values of the \<open>INTEGER\<close> column \<open>batch_id\<close> (from \<open>-2^31\<close> to \<open>2^31 - 1\<close>; the run has
  at most as many batches as the table has rows).
\<close>

theorem reprocess_errors_resets_and_reruns:
  assumes "distinct (map product_id (mro_products ps))"
    and "0 \<le> batch_size ps" and "batch_size ps < 2 ^ 63"
    and "- (2 ^ 31) \<le> current_batch_id ps"
    and "current_batch_id ps + int (length (mro_products ps)) < 2 ^ 31"
  shows "list_all2 (\<lambda>r r'. if processing_status r = ''error'' then r' = reset_row r else r' = r)
           (mro_products ps) (reset_errors (mro_products ps)) \<and>
         (\<exists>res ps'. reprocess_errors api True True ps = Some (res, ps') \<and>
            list_all2 (\<lambda>r r'.
                if processing_status r = ''error'' then classified_from (reset_row r) r'
                else if processing_status r = ''pending''
                  then (if has_errors (mro_products ps) then classified_from r r' else r' = r)
                else r' = r)
              (mro_products ps) (mro_products ps'))"
proof -
  let ?t = "mro_products ps"
  let ?g = "\<lambda>p. if processing_status p = ''error'' then reset_row p else p"
  let ?P = "\<lambda>r r'.
             if processing_status r = ''error'' then classified_from (reset_row r) r'
             else if processing_status r = ''pending''
               then (if has_errors ?t then classified_from r r' else r' = r)
             else r' = r"
  have rs: "reset_errors ?t = map ?g ?t" by (rule reset_errors_map [OF assms(1)])
  have first: "list_all2 (\<lambda>r r'. if processing_status r = ''error'' then r' = reset_row r else r' = r)
           ?t (reset_errors ?t)"
    unfolding rs by (simp add: list_all2_map2 list_all2_refl)
  have second: "\<exists>res ps'. reprocess_errors api True True ps = Some (res, ps') \<and>
      list_all2 ?P ?t (mro_products ps')"
  proof (cases "has_errors ?t")
    case False
    then have none: "\<And>r. r \<in> set ?t \<Longrightarrow> processing_status r \<noteq> ''error''"
      by (auto simp: has_errors_def filter_empty_conv)
    have "reprocess_errors api True True ps =
          Some (Inr \<lparr>total_processed = 0, successful = 0, failed = 0, batches_processed = 0\<rparr>, ps)"
      using False by (simp add: reprocess_errors_def has_errors_def)
    moreover have "list_all2 ?P ?t ?t"
      using False none by (simp add: list_all2_same)
    ultimately show ?thesis by blast
  next
    case True
    let ?ps1 = "ps\<lparr>mro_products := reset_errors ?t\<rparr>"
    have run: "reprocess_errors api True True ps = process_all_pending api True ?ps1"
      using True by (simp add: reprocess_errors_def has_errors_def)
    have ids: "map product_id (reset_errors ?t) = map product_id ?t"
      unfolding rs by (simp add: reset_row_def comp_def)
    have len: "length (reset_errors ?t) = length ?t" unfolding rs by simp
    have d1: "distinct (map product_id (mro_products ?ps1))" using assms(1) ids by simp
    have b1: "0 \<le> batch_size ?ps1" "batch_size ?ps1 < 2 ^ 63"
      "- (2 ^ 31) \<le> current_batch_id ?ps1"
      "current_batch_id ?ps1 + int (length (mro_products ?ps1)) < 2 ^ 31"
      using assms(2,3,4,5) len by simp_all
    from run_result [OF d1 b1, of api]
    obtain st' ps' where r: "process_all_pending api True ?ps1 = Some (Inr st', ps')"
      and l: "list_all2 (\<lambda>r r'. if processing_status r = ''pending'' then classified_from r r' else r' = r)
           (mro_products ?ps1) (mro_products ps')"
      by blast
    from l have "list_all2 (\<lambda>r r'. if processing_status r = ''pending'' then classified_from r r' else r' = r)
           (map ?g ?t) (mro_products ps')"
      by (simp add: rs)
    then have "list_all2 (\<lambda>r r'. if processing_status (?g r) = ''pending''
                  then classified_from (?g r) r' else r' = ?g r)
           ?t (mro_products ps')"
      by (simp add: list_all2_map1)
    then have "list_all2 ?P ?t (mro_products ps')"
    proof (rule list.rel_mono_strong)
      fix r r'
      assume "if processing_status (?g r) = ''pending'' then classified_from (?g r) r' else r' = ?g r"
      then show "?P r r'"
        using True by (auto simp: reset_row_def split: if_splits)
    qed
    then show ?thesis using run r by auto
  qed
  from first second show ?thesis by blast
qed

theorem reprocess_errors_resets_and_reruns_witness:
  "map processing_status (reset_errors (mro_products example_store))
     = [''pending'', ''pending'', ''completed''] \<and>
   map error_message (reset_errors (mro_products example_store)) = [None, None, None] \<and>
   map_option (map processing_status)
     (final_table (reprocess_errors always_failing True True example_store))
     = Some [''completed'', ''completed'', ''completed''] \<and>
   map_option (map error_message)
     (final_table (reprocess_errors always_failing True True example_store))
     = Some [None, None, None]"
proof -
  have b: "distinct (map product_id (mro_products example_store))"
    by (simp add: example_store_def new_row_def)
  have c: "0 \<le> batch_size example_store" "batch_size example_store < 2 ^ 63"
    "- (2 ^ 31) \<le> current_batch_id example_store"
    "current_batch_id example_store + int (length (mro_products example_store)) < 2 ^ 31"
    by (simp_all add: example_store_def)
  have e: "has_errors (mro_products example_store)"
    by (simp add: has_errors_def example_store_def new_row_def)
  note t = reprocess_errors_resets_and_reruns [OF b c, of always_failing]
  from t have first: "map processing_status (reset_errors (mro_products example_store))
     = [''pending'', ''pending'', ''completed''] \<and>
   map error_message (reset_errors (mro_products example_store)) = [None, None, None]"
    by (auto simp: example_store_def new_row_def list_all2_Cons1 reset_row_def)
  from t obtain res ps' where
    r: "reprocess_errors always_failing True True example_store = Some (res, ps')"
    and l: "list_all2 (\<lambda>r r'.
                if processing_status r = ''error'' then classified_from (reset_row r) r'
                else if processing_status r = ''pending''
                  then (if has_errors (mro_products example_store)
                        then classified_from r r' else r' = r)
                else r' = r)
              (mro_products example_store) (mro_products ps')"
    by blast
  from l e have "map processing_status (mro_products ps') = [''completed'', ''completed'', ''completed''] \<and>
      map error_message (mro_products ps') = [None, None, None]"
    by (auto simp: example_store_def new_row_def list_all2_Cons1 classified_from_def reset_row_def
        has_errors_def)
  then have "map_option (map processing_status)
     (final_table (reprocess_errors always_failing True True example_store))
     = Some [''completed'', ''completed'', ''completed''] \<and>
   map_option (map error_message)
     (final_table (reprocess_errors always_failing True True example_store))
     = Some [None, None, None]"
    by (simp add: r final_table_def)
  with first show ?thesis by blast
qed

text \<open>
  C10. Whatever the service answers, \<open>classify_product\<close> returns without an error, with
  department D03, a non-empty category code (the service's, or the keyword fallback's) and a
  non-empty subcategory code (the service's, or the "Others" fallback's), and so with the
  confidence 0.33 + 0.33 + 0.34: the recorded confidence does not tell an answer of the
  service from a fallback. Confidence is a real number here; the Python sum is a float.
\<close>

theorem classify_product_confidence:
  "error (fst (classify_product api name b w)) = None \<and>
   dept_code (fst (classify_product api name b w)) = ''D03'' \<and>
   cat_code (fst (classify_product api name b w)) \<noteq> [] \<and>
   sub_code (fst (classify_product api name b w)) \<noteq> [] \<and>
   confidence (fst (classify_product api name b w)) = 0.33 + 0.33 + 0.34"
  using classify_product_result [of api name b w] by (auto simp: category_codes_eq)

theorem classify_product_confidence_witness:
  "confidence (fst (classify_product always_failing ''OLEO 1L'' 7 \<lparr>calls = 0, slept = []\<rparr>)) = 1 \<and>
   error (fst (classify_product always_failing ''OLEO 1L'' 7 \<lparr>calls = 0, slept = []\<rparr>)) = None"
  using classify_product_confidence [of always_failing "''OLEO 1L''" 7 "\<lparr>calls = 0, slept = []\<rparr>"]
  by simp

end
